theory Spec2Isabelle
  imports Main "HOL-Library.Char_ord" "HOL-Library.List_Lexorder"
begin

section \<open>The ESPN API library probe script\<close>

text \<open>
  A shallow embedding of \<^verbatim>\<open>test-espn-api-library.py\<close>: a script that imports the
  \<^verbatim>\<open>espn_api\<close> library, builds a league handle for a fixed league and year, and
  prints what it can read from the handle (draft picks, teams, rosters).

  The script has no data model of its own. Everything it does is attribute lookup on
  objects of the library, a few builtins (\<^verbatim>\<open>len\<close>, slicing, \<^verbatim>\<open>dir\<close>,
  \<^verbatim>\<open>type\<close>), \<^verbatim>\<open>print\<close>, and \<^verbatim>\<open>try/except\<close>.
  The embedding therefore models
  \<^item> Python objects as attribute tables with the behaviour the builtins observe,
  \<^item> exceptions as values of a sum type,
  \<^item> standard output as the list of the strings passed to \<^verbatim>\<open>print\<close>, one list
    element per call.

  What the library returns is the input of the model: the outcome of the import, the
  constructor \<^verbatim>\<open>League\<close>, and the objects reachable from the league handle. An
  attribute lookup has no side effect, so that looking an attribute up twice gives the
  same result; the conversion of a value to text does not fail, the text of an object
  being part of the object.

  \<^verbatim>\<open>print\<close> raises \<^verbatim>\<open>UnicodeEncodeError\<close> when the standard output cannot encode
  the text. Every run of the script starts with a line that holds an emoji (line 8 after
  the import, line 10 in its handler), and an encoding that has the emoji is a Unicode
  encoding, which has every text (texts with a lone surrogate, which no encoding has,
  are left aside). So the standard output is a parameter of \<open>script\<close>
  below: when it cannot encode the emoji, the first \<^verbatim>\<open>print\<close> of the run raises and the
  run ends there; when it can, \<open>main\<close> is reached and no \<^verbatim>\<open>print\<close> of \<open>main\<close>
  raises, which is how \<open>print\<close> is defined.
\<close>

subsection \<open>Exceptions\<close>

text \<open>
  An exception value stands for an instance of a subclass of \<^verbatim>\<open>Exception\<close>: what a
  library call, an attribute lookup or a builtin raises when it fails. The class is
  recorded as far as the script and the builtins tell classes apart:
  \<^verbatim>\<open>ImportError\<close> (with its subclass \<^verbatim>\<open>ModuleNotFoundError\<close>), which the import
  guard catches; \<^verbatim>\<open>AttributeError\<close>, which \<^verbatim>\<open>hasattr\<close> and three-argument
  \<^verbatim>\<open>getattr\<close> absorb; \<^verbatim>\<open>TypeError\<close>, which \<^verbatim>\<open>len\<close> and slicing raise; and
  every other subclass of \<^verbatim>\<open>Exception\<close>. The string is \<^verbatim>\<open>str(e)\<close>, which is what
  an f-string prints for \<^verbatim>\<open>{e}\<close>.

  Process-control signals that derive from \<^verbatim>\<open>BaseException\<close> only
  (\<^verbatim>\<open>KeyboardInterrupt\<close>, \<^verbatim>\<open>SystemExit\<close>) are not errors of the library and are not
  modelled, except for the script's own \<^verbatim>\<open>exit(1)\<close>.
\<close>

datatype exn_kind = ImportErr | AttributeErr | TypeErr | OtherErr

datatype pyexn = Exn (kind: exn_kind) (message: string)

subsection \<open>Objects\<close>

text \<open>
  An attribute of an object either holds a value or is a property whose getter raises.
\<close>

datatype 'v attr = Value 'v | Raises pyexn

text \<open>
  What \<^verbatim>\<open>bool(o)\<close>, \<^verbatim>\<open>len(o)\<close>, \<^verbatim>\<open>o[:n]\<close> and iteration see of an object:
  \<^item> \<open>Opaque b\<close>: no \<^verbatim>\<open>__len__\<close> and no \<^verbatim>\<open>__getitem__\<close>; its truth value is \<open>b\<close>
    (\<^verbatim>\<open>None\<close> and \<^verbatim>\<open>0\<close> are \<open>Opaque False\<close>, an ordinary class instance or a
    non-zero number is \<open>Opaque True\<close>);
  \<^item> \<open>Sized n\<close>: a container with \<open>n\<close> elements that cannot be subscripted
    (\<^verbatim>\<open>set\<close>, \<^verbatim>\<open>frozenset\<close>);
  \<^item> \<open>Sequence xs\<close>: a \<^verbatim>\<open>list\<close> or \<^verbatim>\<open>tuple\<close> with the elements \<open>xs\<close>;
  \<^item> \<open>Chars cs\<close>: a \<^verbatim>\<open>str\<close> with the characters \<open>cs\<close>, each given by its UTF-8
    text; its elements are the one-character strings.
\<close>

datatype 'v proto = Opaque bool | Sized nat | Sequence "'v list" | Chars "string list"

text \<open>
  An object of the library (or a builtin value found in one of its attributes):
  \<open>type_name\<close> is \<^verbatim>\<open>type(o).__name__\<close>, \<open>type_str\<close> is \<^verbatim>\<open>str(type(o))\<close>,
  \<open>shown\<close> is \<^verbatim>\<open>str(o)\<close>, \<open>attrs\<close> is the attribute table (the first entry for a
  name counts), \<open>proto\<close> is the behaviour above.
\<close>

datatype pyval =
  PyObj (type_name: string) (type_str: string) (shown: string)
        (attrs: "(string \<times> pyval attr) list") (proto: "pyval proto")

text \<open>
  A value held by a variable of the script after \<^verbatim>\<open>getattr(o, name, default)\<close>:
  the literal of the script that was given as the default (a string, or the empty list
  \<^verbatim>\<open>[]\<close>), or an object that came from the library.
\<close>

datatype 'l sval = Lit 'l | Lib pyval

subsection \<open>Builtins\<close>

text \<open>A text between single quotes, as Python's messages and \<^verbatim>\<open>repr\<close> write it.\<close>

definition quote :: "string \<Rightarrow> string" where
  "quote s = [CHR 0x27] @ s @ [CHR 0x27]"

definition truthy :: "pyval \<Rightarrow> bool" where
  "truthy v =
     (case proto v of
        Opaque b \<Rightarrow> b
      | Sized n \<Rightarrow> n \<noteq> 0
      | Sequence xs \<Rightarrow> xs \<noteq> []
      | Chars cs \<Rightarrow> cs \<noteq> [])"

text \<open>\<^verbatim>\<open>hasattr(o, name)\<close>: false when the lookup raises \<^verbatim>\<open>AttributeError\<close>; any other
  exception of a getter propagates.\<close>

definition hasattr :: "pyval \<Rightarrow> string \<Rightarrow> pyexn + bool" where
  "hasattr v name =
     (case map_of (attrs v) name of
        None \<Rightarrow> Inr False
      | Some (Value x) \<Rightarrow> Inr True
      | Some (Raises e) \<Rightarrow> (if kind e = AttributeErr then Inr False else Inl e))"

text \<open>The plain attribute access \<^verbatim>\<open>o.name\<close>.\<close>

definition getattr2 :: "pyval \<Rightarrow> string \<Rightarrow> pyexn + pyval" where
  "getattr2 v name =
     (case map_of (attrs v) name of
        None \<Rightarrow> Inl (Exn AttributeErr
                  (quote (type_name v) @ '' object has no attribute '' @ quote name))
      | Some (Value x) \<Rightarrow> Inr x
      | Some (Raises e) \<Rightarrow> Inl e)"

text \<open>\<^verbatim>\<open>getattr(o, name, default)\<close>: the default replaces an \<^verbatim>\<open>AttributeError\<close> only.\<close>

definition getattr3 :: "pyval \<Rightarrow> string \<Rightarrow> 'l \<Rightarrow> pyexn + 'l sval" where
  "getattr3 v name dflt =
     (case map_of (attrs v) name of
        None \<Rightarrow> Inr (Lit dflt)
      | Some (Value x) \<Rightarrow> Inr (Lib x)
      | Some (Raises e) \<Rightarrow> (if kind e = AttributeErr then Inr (Lit dflt) else Inl e))"

text \<open>\<^verbatim>\<open>len(o)\<close> of an object, and of a variable that may hold the script's list.\<close>

definition len_obj :: "pyval \<Rightarrow> pyexn + nat" where
  "len_obj v =
     (case proto v of
        Opaque b \<Rightarrow> Inl (Exn TypeErr (''object of type '' @ quote (type_name v)
                                       @ '' has no len()''))
      | Sized n \<Rightarrow> Inr n
      | Sequence xs \<Rightarrow> Inr (length xs)
      | Chars cs \<Rightarrow> Inr (length cs))"

definition py_len :: "pyval list sval \<Rightarrow> pyexn + nat" where
  "py_len s = (case s of Lit xs \<Rightarrow> Inr (length xs) | Lib v \<Rightarrow> len_obj v)"

text \<open>The one-character string \<open>c\<close> met when iterating over the string \<open>v\<close>: a string
  like \<open>v\<close>, with the attributes of every \<^verbatim>\<open>str\<close>.\<close>

definition char_obj :: "pyval \<Rightarrow> string \<Rightarrow> pyval" where
  "char_obj v c = PyObj (type_name v) (type_str v) c (attrs v) (Chars [c])"

text \<open>The slice \<^verbatim>\<open>o[:n]\<close>, as the list of elements a \<^verbatim>\<open>for\<close> loop over it visits.\<close>

definition slice_obj :: "pyval \<Rightarrow> nat \<Rightarrow> pyexn + pyval list" where
  "slice_obj v n =
     (case proto v of
        Sequence xs \<Rightarrow> Inr (take n xs)
      | Chars cs \<Rightarrow> Inr (map (char_obj v) (take n cs))
      | _ \<Rightarrow> Inl (Exn TypeErr (quote (type_name v) @ '' object is not subscriptable'')))"

definition py_slice :: "pyval list sval \<Rightarrow> nat \<Rightarrow> pyexn + pyval list" where
  "py_slice s n = (case s of Lit xs \<Rightarrow> Inr (take n xs) | Lib v \<Rightarrow> slice_obj v n)"

text \<open>\<^verbatim>\<open>str(x)\<close> as an f-string applies it to a variable that may hold a string
  literal of the script.\<close>

definition py_str :: "string sval \<Rightarrow> string" where
  "py_str s = (case s of Lit t \<Rightarrow> t | Lib v \<Rightarrow> shown v)"

text \<open>Decimal rendering of the integers the script prints.\<close>

fun str_nat :: "nat \<Rightarrow> string" where
  "str_nat n = (if n < 10 then [''0123456789'' ! n]
                else str_nat (n div 10) @ [''0123456789'' ! (n mod 10)])"

declare str_nat.simps [simp del]

definition str_int :: "int \<Rightarrow> string" where
  "str_int i = (if i < 0 then ''-'' @ str_nat (nat (- i)) else str_nat (nat i))"

text \<open>\<^verbatim>\<open>dir(o)\<close>: the attribute names, sorted. The order of \<^verbatim>\<open>str\<close> in Python is by code
  point, which is the bytewise order of the names' UTF-8 encodings.\<close>

definition py_dir :: "pyval \<Rightarrow> string list" where
  "py_dir v = sort (remdups (map fst (attrs v)))"

text \<open>\<^verbatim>\<open>str\<close> of a list of attribute names: each name in single quotes. (Attribute
  names are identifiers, so \<^verbatim>\<open>repr\<close> escapes nothing in them.)\<close>

fun join :: "string \<Rightarrow> string list \<Rightarrow> string" where
  "join sep [] = []"
| "join sep [x] = x"
| "join sep (x # y # ys) = x @ sep @ join sep (y # ys)"

definition str_names :: "string list \<Rightarrow> string" where
  "str_names ns = ''['' @ join '', '' (map quote ns) @ '']''"

text \<open>\<^verbatim>\<open>s.startswith(p)\<close>.\<close>

definition startswith :: "string \<Rightarrow> string \<Rightarrow> bool" where
  "startswith s p = (take (length p) s = p)"

subsection \<open>Output and exceptions of a function\<close>

text \<open>
  A function of the script yields the lines it printed and either the exception that
  left it or its return value.
\<close>

type_synonym 'a io = "string list \<times> (pyexn + 'a)"

definition ret :: "'a \<Rightarrow> 'a io" where
  "ret x = ([], Inr x)"

definition print :: "string \<Rightarrow> unit io" where
  "print s = ([s], Inr ())"

definition lift :: "pyexn + 'a \<Rightarrow> 'a io" where
  "lift r = ([], r)"

definition bind :: "'a io \<Rightarrow> ('a \<Rightarrow> 'b io) \<Rightarrow> 'b io" where
  "bind m f =
     (case m of
        (out, Inl e) \<Rightarrow> (out, Inl e)
      | (out, Inr x) \<Rightarrow> (case f x of (out', r) \<Rightarrow> (out @ out', r)))"

definition try_except :: "'a io \<Rightarrow> (pyexn \<Rightarrow> 'a io) \<Rightarrow> 'a io" where
  "try_except m handler =
     (case m of
        (out, Inl e) \<Rightarrow> (case handler e of (out', r) \<Rightarrow> (out @ out', r))
      | (out, Inr x) \<Rightarrow> (out, Inr x))"

subsection \<open>The text the script prints\<close>

text \<open>The emoji of the script, as their UTF-8 bytes.\<close>

definition check_mark :: string where "check_mark = [CHR 0xE2, CHR 0x9C, CHR 0x85]"
definition cross_mark :: string where "cross_mark = [CHR 0xE2, CHR 0x9D, CHR 0x8C]"
definition right_arrow :: string where "right_arrow = [CHR 0xE2, CHR 0x86, CHR 0x92]"
definition magnifier :: string where "magnifier = [CHR 0xF0, CHR 0x9F, CHR 0x94, CHR 0x8D]"
definition bar_chart :: string where "bar_chart = [CHR 0xF0, CHR 0x9F, CHR 0x93, CHR 0x8A]"
definition chart_up :: string where "chart_up = [CHR 0xF0, CHR 0x9F, CHR 0x93, CHR 0x88]"
definition trophy :: string where "trophy = [CHR 0xF0, CHR 0x9F, CHR 0x8F, CHR 0x86]"
definition dart :: string where "dart = [CHR 0xF0, CHR 0x9F, CHR 0x8E, CHR 0xAF]"
definition clipboard :: string where "clipboard = [CHR 0xF0, CHR 0x9F, CHR 0x93, CHR 0x8B]"
definition people :: string where "people = [CHR 0xF0, CHR 0x9F, CHR 0x91, CHR 0xA5]"
definition football :: string where "football = [CHR 0xF0, CHR 0x9F, CHR 0x8F, CHR 0x88]"
definition bulb :: string where "bulb = [CHR 0xF0, CHR 0x9F, CHR 0x92, CHR 0xA1]"

definition nl :: string where "nl = [CHR 0x0A]"

definition rule50 :: string where "rule50 = replicate 50 CHR ''=''"

subsection \<open>The league-access probe\<close>

definition league_id :: int where "league_id = 449753582"
definition year :: int where "year = 2025"

text \<open>
  \<^verbatim>\<open>League\<close> is the constructor of the library, a parameter of the model: called with
  the league identifier and the year it raises or returns the league handle.
\<close>

text \<open>The body of the \<^verbatim>\<open>try\<close> of \<^verbatim>\<open>test_league_access\<close> (lines 23 to 30).\<close>

definition league_try_body :: "(int \<Rightarrow> int \<Rightarrow> pyexn + pyval) \<Rightarrow> pyval option io" where
  "league_try_body League =
     bind (print (bar_chart @ '' Connecting to League '' @ str_int league_id
                  @ '' (Year '' @ str_int year @ '')...'')) (\<lambda>_.
     bind (lift (League league_id year)) (\<lambda>league.
     bind (lift (getattr3 league ''name'' ''Unknown Name'')) (\<lambda>name.
     bind (print (check_mark @ '' League connected: '' @ py_str name)) (\<lambda>_.
     bind (lift (getattr3 league ''teams'' [])) (\<lambda>teams.
     bind (lift (py_len teams)) (\<lambda>n.
     bind (print (chart_up @ '' Teams: '' @ str_nat n)) (\<lambda>_.
     bind (lift (getattr3 league ''current_week'' ''Unknown'')) (\<lambda>week.
     bind (print (trophy @ '' Current week: '' @ py_str week)) (\<lambda>_.
     ret (Some league))))))))))"

text \<open>The function returns the league handle, or \<^verbatim>\<open>None\<close> (here \<open>None\<close>).\<close>

definition test_league_access :: "(int \<Rightarrow> int \<Rightarrow> pyexn + pyval) \<Rightarrow> pyval option io" where
  "test_league_access League =
     bind (print (nl @ magnifier @ '' TESTING LEAGUE ACCESS'')) (\<lambda>_.
     bind (print rule50) (\<lambda>_.
     try_except (league_try_body League)
       (\<lambda>e.
        bind (print (cross_mark @ '' Public access failed: '' @ message e)) (\<lambda>_.
        ret None))))"

subsection \<open>The draft-access probe\<close>

text \<open>The truth value of the variable \<^verbatim>\<open>league\<close>, which holds \<^verbatim>\<open>None\<close> or the handle.\<close>

definition truthy_opt :: "pyval option \<Rightarrow> bool" where
  "truthy_opt league = (case league of None \<Rightarrow> False | Some lg \<Rightarrow> truthy lg)"

text \<open>The body of the loop over the picks (lines 60 to 66).\<close>

definition pick_body :: "nat \<Rightarrow> pyval \<Rightarrow> unit io" where
  "pick_body i pick =
     bind (lift (getattr3 pick ''player_name'' ''Unknown Player'')) (\<lambda>player_name.
     bind (lift (getattr3 pick ''team_id'' ''Unknown Team'')) (\<lambda>team_id.
     bind (lift (getattr3 pick ''round_num'' ''Unknown Round'')) (\<lambda>round_num.
     bind (lift (getattr3 pick ''pick_num'' ''Unknown Pick'')) (\<lambda>pick_num.
     bind (print (''  Pick '' @ str_nat (i + 1) @ '': Round '' @ py_str round_num
                  @ '', Pick '' @ py_str pick_num)) (\<lambda>_.
     print (''           Team '' @ py_str team_id @ '' '' @ right_arrow @ '' ''
            @ py_str player_name))))))"

text \<open>The loop \<^verbatim>\<open>for i, pick in enumerate(...)\<close> with its \<^verbatim>\<open>break\<close> (lines 59 to 69).\<close>

fun for_picks :: "(nat \<times> pyval) list \<Rightarrow> unit io" where
  "for_picks [] = ret ()"
| "for_picks ((i, pick) # rest) =
     bind (pick_body i pick) (\<lambda>_. if i \<ge> 5 then ret () else for_picks rest)"

text \<open>The body of the \<^verbatim>\<open>try\<close> of \<^verbatim>\<open>test_draft_access\<close> (lines 47 to 77).\<close>

definition draft_try_body :: "pyval \<Rightarrow> unit io" where
  "draft_try_body league =
     bind (lift (hasattr league ''draft'')) (\<lambda>has_draft.
     if has_draft then
       bind (print (check_mark @ '' League has draft attribute!'')) (\<lambda>_.
       bind (lift (getattr2 league ''draft'')) (\<lambda>draft.
       bind (print (clipboard @ '' Draft object: '' @ type_str draft)) (\<lambda>_.
       bind (lift (hasattr draft ''picks'')) (\<lambda>has_picks.
       if has_picks then
         bind (lift (getattr2 draft ''picks'')) (\<lambda>picks.
         bind (lift (if truthy picks then len_obj picks else Inr 0)) (\<lambda>n.
         bind (print (dart @ '' Total draft picks found: '' @ str_nat n)) (\<lambda>_.
         if truthy picks then
           bind (print (nl @ bar_chart @ '' DRAFT PICKS DETECTED:'')) (\<lambda>_.
           bind (lift (slice_obj picks 10)) (\<lambda>first10.
           for_picks (enumerate 0 first10)))
         else
           print (cross_mark @ '' No draft picks found in picks array''))))
       else
         bind (print (cross_mark @ '' Draft object has no '' @ quote ''picks''
                      @ '' attribute'')) (\<lambda>_.
         print (clipboard @ '' Available draft attributes: '' @ str_names (py_dir draft)))))))
     else
       bind (print (cross_mark @ '' League has no '' @ quote ''draft'' @ '' attribute'')) (\<lambda>_.
       print (clipboard @ '' Available league attributes: ''
              @ str_names (filter (\<lambda>attr. \<not> startswith attr ''_'') (py_dir league)))))"

text \<open>The guard \<^verbatim>\<open>if not league\<close> (line 38) holds for \<^verbatim>\<open>None\<close> and for a handle that
  is falsy.\<close>

definition test_draft_access :: "pyval option \<Rightarrow> unit io" where
  "test_draft_access league =
     (case league of
        None \<Rightarrow> print (nl @ cross_mark @ '' No league to test draft access'')
      | Some lg \<Rightarrow>
          if \<not> truthy lg then print (nl @ cross_mark @ '' No league to test draft access'')
          else
            bind (print (nl @ dart @ '' TESTING DRAFT ACCESS'')) (\<lambda>_.
            bind (print rule50) (\<lambda>_.
            try_except (draft_try_body lg)
              (\<lambda>e. print (cross_mark @ '' Draft access failed: '' @ message e)))))"

subsection \<open>The roster-access probe\<close>

text \<open>A \<^verbatim>\<open>for\<close> loop without \<^verbatim>\<open>break\<close>: an exception of the body ends it.\<close>

fun for_each :: "'a list \<Rightarrow> ('a \<Rightarrow> unit io) \<Rightarrow> unit io" where
  "for_each [] body = ret ()"
| "for_each (x # xs) body = bind (body x) (\<lambda>_. for_each xs body)"

text \<open>The body of the loop over the players (lines 108 to 110).\<close>

definition player_body :: "pyval \<Rightarrow> unit io" where
  "player_body player =
     bind (lift (getattr3 player ''name'' ''Unknown Player'')) (\<lambda>name.
     bind (lift (getattr3 player ''position'' ''Unknown Position'')) (\<lambda>position.
     print (''    - '' @ py_str name @ '' ('' @ py_str position @ '')'')))"

text \<open>The body of the loop over the teams (lines 95 to 112).\<close>

definition team_body :: "pyval \<Rightarrow> unit io" where
  "team_body team =
     bind (lift (getattr3 team ''team_id'' ''Unknown'')) (\<lambda>team_id.
     bind (lift (getattr3 team ''team_name'' ''Unknown'')) (\<lambda>team_name.
     bind (lift (getattr3 team ''owner'' ''Unknown'')) (\<lambda>owner.
     bind (print (nl @ football @ '' Team '' @ py_str team_id @ '': '' @ py_str team_name
                  @ '' (Owner: '' @ py_str owner @ '')'')) (\<lambda>_.
     bind (lift (hasattr team ''roster'')) (\<lambda>has_roster.
     if has_roster then
       bind (lift (getattr2 team ''roster'')) (\<lambda>roster.
       bind (lift (if truthy roster then len_obj roster else Inr 0)) (\<lambda>n.
       bind (print (''  '' @ clipboard @ '' Roster size: '' @ str_nat n)) (\<lambda>_.
       if truthy roster then
         bind (lift (slice_obj roster 3)) (\<lambda>first3.
         for_each first3 player_body)
       else ret ())))
     else
       print (''  '' @ cross_mark @ '' No roster attribute found''))))))"

text \<open>The body of the \<^verbatim>\<open>try\<close> of \<^verbatim>\<open>test_teams_and_rosters\<close> (lines 91 to 112).\<close>

definition rosters_try_body :: "pyval \<Rightarrow> unit io" where
  "rosters_try_body league =
     bind (lift (getattr3 league ''teams'' [])) (\<lambda>teams.
     bind (lift (py_len teams)) (\<lambda>n.
     bind (print (bar_chart @ '' Found '' @ str_nat n @ '' teams'')) (\<lambda>_.
     bind (lift (py_slice teams 3)) (\<lambda>first3.
     for_each first3 team_body))))"

text \<open>The guard of line 84 returns without printing.\<close>

definition test_teams_and_rosters :: "pyval option \<Rightarrow> unit io" where
  "test_teams_and_rosters league =
     (case league of
        None \<Rightarrow> ret ()
      | Some lg \<Rightarrow>
          if \<not> truthy lg then ret ()
          else
            bind (print (nl @ people @ '' TESTING TEAMS AND ROSTERS'')) (\<lambda>_.
            bind (print rule50) (\<lambda>_.
            try_except (rosters_try_body lg)
              (\<lambda>e. print (cross_mark @ '' Teams/roster access failed: '' @ message e)))))"

subsection \<open>The main function and the script\<close>

definition main :: "(int \<Rightarrow> int \<Rightarrow> pyexn + pyval) \<Rightarrow> unit io" where
  "main League =
     bind (print (football @ '' ESPN API LIBRARY TEST'')) (\<lambda>_.
     bind (print ''Testing draft monitoring capabilities...'') (\<lambda>_.
     bind (test_league_access League) (\<lambda>league.
     bind (test_draft_access league) (\<lambda>_.
     bind (test_teams_and_rosters league) (\<lambda>_.
     bind (print (nl @ dart @ '' SUMMARY:'')) (\<lambda>_.
     if truthy_opt league then
       bind (print (check_mark @ '' ESPN API library can connect to your league!'')) (\<lambda>_.
       bind (print (dart @ '' This might be the solution for live draft monitoring!'')) (\<lambda>_.
       bind (print (nl @ bulb @ '' Next steps:'')) (\<lambda>_.
       bind (print ''1. Add authentication cookies for private league access'') (\<lambda>_.
       bind (print ''2. Test during active draft'') (\<lambda>_.
       print ''3. Integrate with Discord monitoring system'')))))
     else
       bind (print (cross_mark @ '' ESPN API library couldn'' @ [CHR 0x27]
                    @ ''t connect to league'')) (\<lambda>_.
       print (bulb @ '' May need authentication cookies for private leagues''))))))))"

text \<open>
  The script run as a program: the import guard (lines 6 to 11), then \<^verbatim>\<open>main()\<close>.
  The parameters are the standard output (\<open>encodes\<close>: whether it can encode the emoji of
  the script, as UTF-8 does and ASCII or Latin-1 do not) and the outcome of the
  \<^verbatim>\<open>import\<close> statement: the exception it raises, or the constructor \<^verbatim>\<open>League\<close>.
  The result is the standard output and the exit status of the process.
  \<^item> The import raises an \<^verbatim>\<open>ImportError\<close>: the handler prints the failure line and
    calls \<^verbatim>\<open>exit(1)\<close>. When the line cannot be encoded, the \<^verbatim>\<open>print\<close> raises inside
    the handler: nothing is printed, and the exception, which nobody catches, ends the
    process with status 1 (the interpreter writes the traceback on the standard error).
  \<^item> The import raises another exception: the handler does not catch it, nothing is
    printed and the process ends with status 1.
  \<^item> The import succeeds: line 8 prints its line. When the line cannot be encoded, the
    \<^verbatim>\<open>print\<close> raises \<^verbatim>\<open>UnicodeEncodeError\<close>, which is not an \<^verbatim>\<open>ImportError\<close>:
    nothing is printed, \<^verbatim>\<open>main\<close> is not run, and the process ends with status 1.
    Otherwise \<^verbatim>\<open>main()\<close> runs, and the end of the script gives status 0 (an
    exception that left \<^verbatim>\<open>main\<close> would give status 1).
\<close>

definition script ::
  "bool \<Rightarrow> pyexn + (int \<Rightarrow> int \<Rightarrow> pyexn + pyval) \<Rightarrow> string list \<times> nat" where
  "script encodes imported =
     (case imported of
        Inl e \<Rightarrow>
          if kind e = ImportErr
          then (if encodes
                then ([cross_mark @ '' Failed to import ESPN API: '' @ message e], 1)
                else ([], 1))
          else ([], 1)
      | Inr League \<Rightarrow>
          if \<not> encodes then ([], 1)
          else
            (case main League of
               (out, Inl e) \<Rightarrow>
                 ((check_mark @ '' ESPN API library imported successfully!'') # out, 1)
             | (out, Inr u) \<Rightarrow>
                 ((check_mark @ '' ESPN API library imported successfully!'') # out, 0)))"

subsection \<open>The lines that report a pick, a team, a player\<close>

text \<open>
  The line that opens the report of a pick (line 65), of a team (line 99) and the line
  that reports a player (line 110) are told from every other line of the script by the
  fixed text they start with.
\<close>

definition is_pick_line :: "string \<Rightarrow> bool" where
  "is_pick_line l = startswith l ''  Pick ''"

definition is_team_line :: "string \<Rightarrow> bool" where
  "is_team_line l = startswith l (nl @ football @ '' Team '')"

definition is_player_line :: "string \<Rightarrow> bool" where
  "is_player_line l = startswith l ''    - ''"

subsection \<open>What a field is printed as\<close>

text \<open>
  To state what the script prints for a field read with
  \<^verbatim>\<open>getattr(o, name, default)\<close> where the default is a string. \<open>reads_ok v names\<close>:
  no lookup of one of the names on \<open>v\<close> raises anything but \<^verbatim>\<open>AttributeError\<close>.
  \<open>shown_or v name dflt\<close>: the text of the value of the attribute, and the default when
  there is no value. \<open>pick_report\<close>: the two lines printed for a pick (lines 65 and 66).
\<close>

definition shown_or :: "pyval \<Rightarrow> string \<Rightarrow> string \<Rightarrow> string" where
  "shown_or v name dflt = (case map_of (attrs v) name of Some (Value x) \<Rightarrow> shown x | _ \<Rightarrow> dflt)"

definition reads_ok :: "pyval \<Rightarrow> string list \<Rightarrow> bool" where
  "reads_ok v names =
     list_all (\<lambda>n. case map_of (attrs v) n of Some (Raises e) \<Rightarrow> kind e = AttributeErr | _ \<Rightarrow> True)
       names"

definition pick_report :: "nat \<Rightarrow> pyval \<Rightarrow> string list" where
  "pick_report i pick =
     [''  Pick '' @ str_nat (i + 1) @ '': Round '' @ shown_or pick ''round_num'' ''Unknown Round''
        @ '', Pick '' @ shown_or pick ''pick_num'' ''Unknown Pick'',
      ''           Team '' @ shown_or pick ''team_id'' ''Unknown Team'' @ '' '' @ right_arrow
        @ '' '' @ shown_or pick ''player_name'' ''Unknown Player'']"

subsection \<open>Example objects\<close>

text \<open>
  Objects for concrete runs. \<open>class_str\<close> is \<^verbatim>\<open>str\<close> of a class. The builtin values
  get an empty attribute table: none of the names the script looks up is an attribute
  of \<^verbatim>\<open>None\<close>, of an \<^verbatim>\<open>int\<close>, of a \<^verbatim>\<open>str\<close> or of a \<^verbatim>\<open>list\<close>, and no run
  below lists the attributes of one. The texts of the strings are ASCII.
\<close>

definition class_str :: "string \<Rightarrow> string" where
  "class_str name = ''<class '' @ quote name @ ''>''"

definition none_obj :: pyval where
  "none_obj = PyObj ''NoneType'' (class_str ''NoneType'') ''None'' [] (Opaque False)"

definition int_obj :: "nat \<Rightarrow> pyval" where
  "int_obj n = PyObj ''int'' (class_str ''int'') (str_nat n) [] (Opaque (n \<noteq> 0))"

definition str_obj :: "string \<Rightarrow> pyval" where
  "str_obj s = PyObj ''str'' (class_str ''str'') s [] (Chars (map (\<lambda>c. [c]) s))"

definition list_obj :: "string \<Rightarrow> pyval list \<Rightarrow> pyval" where
  "list_obj text xs = PyObj ''list'' (class_str ''list'') text [] (Sequence xs)"

text \<open>A pick with a round, a number and a team, and no player name.\<close>

definition pick_obj :: "nat \<Rightarrow> nat \<Rightarrow> pyval" where
  "pick_obj r k =
     PyObj ''Pick'' (class_str ''espn_api.football.pick.Pick'') ''Pick()''
       [(''round_num'', Value (int_obj r)), (''pick_num'', Value (int_obj k)),
        (''team_id'', Value (int_obj 3))]
       (Opaque True)"

definition player_obj :: "string \<Rightarrow> string \<Rightarrow> pyval" where
  "player_obj name pos =
     PyObj ''Player'' (class_str ''espn_api.football.player.Player'') (''Player('' @ name @ '')'')
       [(''name'', Value (str_obj name)), (''position'', Value (str_obj pos))]
       (Opaque True)"

text \<open>A team without an owner.\<close>

definition team_obj :: "nat \<Rightarrow> string \<Rightarrow> pyval \<Rightarrow> pyval" where
  "team_obj i name roster =
     PyObj ''Team'' (class_str ''espn_api.football.team.Team'') (''Team('' @ name @ '')'')
       [(''team_id'', Value (int_obj i)), (''team_name'', Value (str_obj name)),
        (''roster'', Value roster)]
       (Opaque True)"

definition draft_obj :: "(string \<times> pyval attr) list \<Rightarrow> pyval" where
  "draft_obj table =
     PyObj ''Draft'' (class_str ''espn_api.football.draft.Draft'') ''Draft()'' table (Opaque True)"

definition league_obj :: "(string \<times> pyval attr) list \<Rightarrow> pyval" where
  "league_obj table =
     PyObj ''League'' (class_str ''espn_api.football.league.League'') ''League(449753582, 2025)''
       table (Opaque True)"

text \<open>A league without a name, teams, a current week or a draft.\<close>

definition bare_league :: pyval where
  "bare_league =
     league_obj [(''__doc__'', Value none_obj), (''league_id'', Value (int_obj 449753582))]"

text \<open>The constructor that returns it.\<close>

definition bare_League :: "int \<Rightarrow> int \<Rightarrow> pyexn + pyval" where
  "bare_League i y = Inr bare_league"

text \<open>An instance of a class, with no attribute of its own.\<close>

definition bare_obj :: "string \<Rightarrow> pyval" where
  "bare_obj name =
     PyObj name (class_str name) (''<'' @ name @ '' object>'') [(''__doc__'', Value none_obj)]
       (Opaque True)"

text \<open>The strings the script gives to \<^verbatim>\<open>getattr\<close> as defaults (lines 26, 28, 60 to 63,
  95 to 97, 108 and 109).\<close>

definition placeholders :: "string list" where
  "placeholders =
     [''Unknown Name'', ''Unknown'', ''Unknown Player'', ''Unknown Team'', ''Unknown Round'',
      ''Unknown Pick'', ''Unknown Position'']"

text \<open>A constructor that raises, as for a private league.\<close>

definition failing_League :: "int \<Rightarrow> int \<Rightarrow> pyexn + pyval" where
  "failing_League i y = Inl (Exn OtherErr ''League 449753582 cannot be accessed'')"

text \<open>A league whose draft has the given value for \<^verbatim>\<open>picks\<close>.\<close>

definition league_with_picks :: "pyval \<Rightarrow> pyval" where
  "league_with_picks picks = league_obj [(''draft'', Value (draft_obj [(''picks'', Value picks)]))]"

text \<open>A list of seven picks.\<close>

definition seven_picks :: pyval where
  "seven_picks = list_obj ''[Pick(), Pick(), Pick(), Pick(), Pick(), Pick(), Pick()]''
     [pick_obj 1 1, pick_obj 1 2, pick_obj 1 3, pick_obj 1 4, pick_obj 2 5, pick_obj 2 6,
      pick_obj 2 7]"

text \<open>A roster of four players, and a league of four teams with that roster.\<close>

definition roster_of_four :: pyval where
  "roster_of_four = list_obj ''[Player(Allen), Player(Barkley), Player(Chase), Player(Kelce)]''
     [player_obj ''Allen'' ''QB'', player_obj ''Barkley'' ''RB'', player_obj ''Chase'' ''WR'',
      player_obj ''Kelce'' ''TE'']"

definition league_of_four :: pyval where
  "league_of_four =
     league_obj [(''teams'', Value (list_obj ''[Team(Aces), Team(Blitz), Team(Comets), Team(Dukes)]''
       [team_obj 1 ''Aces'' roster_of_four, team_obj 2 ''Blitz'' roster_of_four,
        team_obj 3 ''Comets'' roster_of_four, team_obj 4 ''Dukes'' roster_of_four]))]"

text \<open>A league without a draft, and a league whose draft has no picks.\<close>

definition league_without_draft :: pyval where
  "league_without_draft =
     league_obj [(''year'', Value (int_obj 2025)), (''__doc__'', Value none_obj),
                 (''_fetch_league'', Value none_obj), (''league_id'', Value (int_obj 449753582))]"

definition league_without_picks :: pyval where
  "league_without_picks =
     league_obj [(''draft'', Value (draft_obj [(''order'', Value none_obj),
                                               (''__doc__'', Value none_obj)]))]"

text \<open>A league whose \<^verbatim>\<open>teams\<close> is a number: \<^verbatim>\<open>len\<close> raises in the league-access
  probe.\<close>

definition league_teams_int :: pyval where
  "league_teams_int = league_obj [(''name'', Value (str_obj ''Sunday League'')), (''teams'', Value (int_obj 12))]"

text \<open>A league whose \<^verbatim>\<open>draft\<close> is a property that raises, and whose \<^verbatim>\<open>teams\<close> is a
  set of two teams: it has a length and cannot be sliced.\<close>

definition league_broken :: pyval where
  "league_broken =
     league_obj [(''draft'', Raises (Exn OtherErr ''draft data not loaded'')),
                 (''teams'', Value (PyObj ''set'' (class_str ''set'') ''{Team(A), Team(B)}'' [] (Sized 2)))]"

subsection \<open>The two verdicts of the summary\<close>

text \<open>The lines 130 to 137 and the lines 130, 139 and 140 of the script, to state what
  \<open>main\<close> prints last.\<close>

definition summary_connected :: "string list" where
  "summary_connected =
     [nl @ dart @ '' SUMMARY:'',
      check_mark @ '' ESPN API library can connect to your league!'',
      dart @ '' This might be the solution for live draft monitoring!'',
      nl @ bulb @ '' Next steps:'',
      ''1. Add authentication cookies for private league access'',
      ''2. Test during active draft'',
      ''3. Integrate with Discord monitoring system'']"

definition summary_failed :: "string list" where
  "summary_failed =
     [nl @ dart @ '' SUMMARY:'',
      cross_mark @ '' ESPN API library couldn'' @ [CHR 0x27] @ ''t connect to league'',
      bulb @ '' May need authentication cookies for private leagues'']"

section \<open>Properties\<close>

subsection \<open>Sequencing, printing and catching\<close>

lemma bind_print [simp]: "bind (print s) f = (s # fst (f ()), snd (f ()))"
  by (simp add: bind_def print_def split: prod.splits sum.splits)

lemma bind_ret [simp]: "bind (ret x) f = f x"
  by (simp add: bind_def ret_def)

lemma bind_lift_Inr [simp]: "bind (lift (Inr x)) f = f x"
  by (simp add: bind_def lift_def)

lemma bind_lift_Inl [simp]: "bind (lift (Inl e)) f = ([], Inl e)"
  by (simp add: bind_def lift_def)

lemma bind_lift: "bind (lift r) f = (case r of Inl e \<Rightarrow> ([], Inl e) | Inr x \<Rightarrow> f x)"
  by (cases r) simp_all

lemma bind_pair_Inr [simp]:
  "bind (out, Inr x) f = (out @ fst (f x), snd (f x))"
  by (simp add: bind_def split: prod.splits)

lemma bind_pair_Inl [simp]: "bind (out, Inl e) f = (out, Inl e)"
  by (simp add: bind_def)

lemma fst_print [simp]: "fst (print s) = [s]"
  by (simp add: print_def)

lemma snd_print [simp]: "snd (print s) = Inr ()"
  by (simp add: print_def)

lemma fst_ret [simp]: "fst (ret x) = []"
  by (simp add: ret_def)

lemma snd_ret [simp]: "snd (ret x) = Inr x"
  by (simp add: ret_def)

lemma try_except_Inr [simp]: "try_except (out, Inr x) h = (out, Inr x)"
  by (simp add: try_except_def)

lemma try_except_Inl [simp]: "try_except (out, Inl e) h = (out @ fst (h e), snd (h e))"
  by (simp add: try_except_def split: prod.splits)

lemma try_except_cases:
  "try_except m h =
     (case snd m of Inl e \<Rightarrow> (fst m @ fst (h e), snd (h e)) | Inr x \<Rightarrow> m)"
  by (cases m) (auto split: sum.splits)

lemma bind_eq:
  "bind m f =
     (case snd m of Inl e \<Rightarrow> (fst m, Inl e) | Inr x \<Rightarrow> (fst m @ fst (f x), snd (f x)))"
  by (cases m) (auto split: sum.splits)

lemma str_league_id: "str_int 449753582 = ''449753582''"
  by (simp add: str_int_def str_nat.simps)

lemma str_year: "str_int 2025 = ''2025''"
  by (simp add: str_int_def str_nat.simps)

lemmas builtin_defs = hasattr_def getattr2_def getattr3_def len_obj_def py_len_def
  slice_obj_def py_slice_def py_str_def truthy_def truthy_opt_def

lemmas example_defs = none_obj_def int_obj_def str_obj_def list_obj_def pick_obj_def
  player_obj_def team_obj_def draft_obj_def league_obj_def

subsection \<open>No probe lets an exception out\<close>

lemma test_league_access_returns: "\<exists>v. snd (test_league_access League) = Inr v"
  by (simp add: test_league_access_def try_except_cases split: sum.splits)

lemma test_draft_access_returns: "snd (test_draft_access league) = Inr ()"
  by (simp add: test_draft_access_def try_except_cases split: sum.splits option.splits)

lemma test_teams_and_rosters_returns: "snd (test_teams_and_rosters league) = Inr ()"
  by (simp add: test_teams_and_rosters_def try_except_cases split: sum.splits option.splits)

lemma main_eq:
  assumes "test_league_access League = (out, Inr league)"
  shows "main League =
     ([football @ '' ESPN API LIBRARY TEST'', ''Testing draft monitoring capabilities...'']
      @ out @ fst (test_draft_access league) @ fst (test_teams_and_rosters league)
      @ (if truthy_opt league then summary_connected else summary_failed),
      Inr ())"
  using assms
  by (simp add: main_def bind_eq [of "test_draft_access league"]
        bind_eq [of "test_teams_and_rosters league"]
        test_draft_access_returns test_teams_and_rosters_returns
        summary_connected_def summary_failed_def)

lemma main_reaches_summary:
  "\<exists>pre verdict. main League = (pre @ verdict, Inr ())
      \<and> (verdict = summary_connected \<or> verdict = summary_failed)"
proof -
  obtain out r where p: "test_league_access League = (out, r)"
    by (cases "test_league_access League")
  with test_league_access_returns [of League] obtain league where "r = Inr league"
    by auto
  with p have "test_league_access League = (out, Inr league)" by simp
  from main_eq [OF this] have
    "main League =
       (([football @ '' ESPN API LIBRARY TEST'', ''Testing draft monitoring capabilities...'']
         @ out @ fst (test_draft_access league) @ fst (test_teams_and_rosters league))
        @ (if truthy_opt league then summary_connected else summary_failed), Inr ())"
    by simp
  then show ?thesis
    by (intro exI [of _ "[football @ '' ESPN API LIBRARY TEST'',
            ''Testing draft monitoring capabilities...'']
          @ out @ fst (test_draft_access league) @ fst (test_teams_and_rosters league)"]
        exI [of _ "if truthy_opt league then summary_connected else summary_failed"])
       (simp only: if_split, simp)
qed

lemma set_py_dir: "set (py_dir v) = fst ` set (attrs v)"
  by (simp add: py_dir_def)

lemma sorted_py_dir: "sorted (py_dir v)"
  by (simp add: py_dir_def)

lemma distinct_py_dir: "distinct (py_dir v)"
  by (simp add: py_dir_def)

lemma startswith_underscore: "startswith a ''_'' \<longleftrightarrow> (\<exists>b. a = CHR ''_'' # b)"
  by (cases a) (auto simp: startswith_def)

subsection \<open>Reading fields and reporting picks\<close>

lemma rule50_text: "rule50 = ''==================================================''"
  unfolding rule50_def by code_simp

lemmas line_defs = is_pick_line_def is_team_line_def is_player_line_def startswith_def
  nl_def football_def cross_mark_def check_mark_def clipboard_def dart_def bar_chart_def
  people_def rule50_text

lemma getattr3_str:
  "reads_ok v [name] \<Longrightarrow>
   bind (lift (getattr3 v name dflt)) f =
   f (case map_of (attrs v) name of Some (Value x) \<Rightarrow> Lib x | _ \<Rightarrow> Lit dflt)"
  by (auto simp: reads_ok_def getattr3_def split: option.splits attr.splits)

lemma py_str_case:
  "py_str (case map_of (attrs v) name of Some (Value x) \<Rightarrow> Lib x | _ \<Rightarrow> Lit dflt) = shown_or v name dflt"
  by (auto simp: shown_or_def py_str_def split: option.splits attr.splits)

lemma pick_body_reads_ok:
  assumes "reads_ok pick [''player_name'', ''team_id'', ''round_num'', ''pick_num'']"
  shows "pick_body i pick =
     ([''  Pick '' @ str_nat (i + 1) @ '': Round '' @ shown_or pick ''round_num'' ''Unknown Round''
         @ '', Pick '' @ shown_or pick ''pick_num'' ''Unknown Pick'',
       ''           Team '' @ shown_or pick ''team_id'' ''Unknown Team'' @ '' '' @ right_arrow
         @ '' '' @ shown_or pick ''player_name'' ''Unknown Player''], Inr ())"
proof -
  from assms have "reads_ok pick [''player_name'']" "reads_ok pick [''team_id'']"
    "reads_ok pick [''round_num'']" "reads_ok pick [''pick_num'']"
    by (simp_all add: reads_ok_def)
  then show ?thesis
    by (simp add: pick_body_def getattr3_str py_str_case)
qed

lemma pick_body_cases:
  "(\<exists>e. pick_body i p = ([], Inl e)) \<or>
   (\<exists>a b. pick_body i p = ([a, b], Inr ()) \<and> is_pick_line a \<and> \<not> is_pick_line b)"
  by (simp add: pick_body_def bind_lift line_defs split: sum.splits)

lemma for_picks_count:
  "n \<le> 5 \<Longrightarrow>
   length (filter is_pick_line (fst (for_picks (enumerate n xs)))) \<le> min (length xs) (6 - n)"
proof (induction xs arbitrary: n)
  case Nil
  then show ?case by simp
next
  case (Cons p ps)
  from pick_body_cases [of n p] show ?case
  proof (elim disjE exE conjE)
    fix e assume "pick_body n p = ([], Inl e)"
    then show ?thesis by simp
  next
    fix a b
    assume pb: "pick_body n p = ([a, b], Inr ())" and a: "is_pick_line a" and b: "\<not> is_pick_line b"
    show ?thesis
    proof (cases "n \<ge> 5")
      case True
      with Cons.prems pb a b show ?thesis by simp
    next
      case False
      then have "Suc n \<le> 5" by simp
      from Cons.IH [OF this] have
        "length (filter is_pick_line (fst (for_picks (enumerate (Suc n) ps)))) \<le> min (length ps) (6 - Suc n)" .
      moreover have "fst (for_picks (enumerate n (p # ps))) = [a, b] @ fst (for_picks (enumerate (Suc n) ps))"
        using pb False by simp
      ultimately have
        "length (filter is_pick_line (fst (for_picks (enumerate n (p # ps))))) =
           Suc (length (filter is_pick_line (fst (for_picks (enumerate (Suc n) ps)))))"
        and "length (filter is_pick_line (fst (for_picks (enumerate (Suc n) ps)))) \<le> length ps"
        and "length (filter is_pick_line (fst (for_picks (enumerate (Suc n) ps)))) \<le> 6 - Suc n"
        using a b by simp_all
      then show ?thesis using False by (simp del: for_picks.simps enumerate_simps)
    qed
  qed
qed

lemma for_picks_exact:
  "n + k = 6 \<Longrightarrow> 0 < k \<Longrightarrow>
   \<forall>(i, p) \<in> set (enumerate n (take k xs)). snd (pick_body i p) = Inr () \<Longrightarrow>
   for_picks (enumerate n xs) =
     (concat (map (\<lambda>(i, p). fst (pick_body i p)) (enumerate n (take k xs))), Inr ())"
proof (induction xs arbitrary: n k)
  case Nil
  then show ?case by (simp add: ret_def)
next
  case (Cons p ps)
  from Cons.prems(2) obtain k' where k: "k = Suc k'"
    by (cases k) simp_all
  from Cons.prems(3) have ok: "snd (pick_body n p) = Inr ()"
    by (simp add: k)
  then have pb: "pick_body n p = (fst (pick_body n p), Inr ())"
    by (metis prod.collapse)
  have step: "for_picks (enumerate n (p # ps)) =
      (fst (pick_body n p) @ fst (if n \<ge> 5 then ret () else for_picks (enumerate (Suc n) ps)),
       snd (if n \<ge> 5 then ret () else for_picks (enumerate (Suc n) ps)))"
    by (simp only: enumerate_simps for_picks.simps) (subst pb, simp only: bind_pair_Inr)
  show ?case
  proof (cases "k' = 0")
    case True
    with Cons.prems(1) k have "n = 5" by simp
    with True k step show ?thesis by simp
  next
    case False
    with Cons.prems(1) k have n: "\<not> n \<ge> 5" and sum: "Suc n + k' = 6" and pos: "0 < k'"
      by simp_all
    from Cons.prems(3) have
      "\<forall>(i, p) \<in> set (enumerate (Suc n) (take k' ps)). snd (pick_body i p) = Inr ()"
      by (simp add: k)
    from Cons.IH [OF sum pos this] have
      "for_picks (enumerate (Suc n) ps) =
        (concat (map (\<lambda>(i, p). fst (pick_body i p)) (enumerate (Suc n) (take k' ps))), Inr ())" .
    with step n k show ?thesis by simp
  qed
qed

lemma draft_with_picks:
  assumes "truthy lg" "hasattr lg ''draft'' = Inr True" "getattr2 lg ''draft'' = Inr d"
    "hasattr d ''picks'' = Inr True" "getattr2 d ''picks'' = Inr picks"
    "proto picks = Sequence ps" "ps \<noteq> []"
  shows "test_draft_access (Some lg) =
     ([nl @ dart @ '' TESTING DRAFT ACCESS'', rule50,
       check_mark @ '' League has draft attribute!'',
       clipboard @ '' Draft object: '' @ type_str d,
       dart @ '' Total draft picks found: '' @ str_nat (length ps),
       nl @ bar_chart @ '' DRAFT PICKS DETECTED:'']
      @ fst (for_picks (enumerate 0 (take 10 ps)))
      @ (case snd (for_picks (enumerate 0 (take 10 ps))) of
           Inl e \<Rightarrow> [cross_mark @ '' Draft access failed: '' @ message e]
         | Inr u \<Rightarrow> []),
      Inr ())"
  using assms
  by (simp add: test_draft_access_def draft_try_body_def truthy_def len_obj_def slice_obj_def
        try_except_cases split: sum.splits)

lemma pick_lines_of_report:
  "filter is_pick_line (pick_report i p) = [hd (pick_report i p)]"
  by (simp add: pick_report_def line_defs)

lemma count_pick_reports:
  "length (filter is_pick_line (concat (map (\<lambda>(i, p). pick_report i p) xs))) = length xs"
  by (induction xs) (auto simp: pick_lines_of_report)

subsection \<open>Counting the lines of the roster-access probe\<close>

lemma slice_obj_length: "slice_obj v n = Inr xs \<Longrightarrow> length xs \<le> n"
  by (auto simp: slice_obj_def split: proto.splits)

lemma py_slice_length: "py_slice s n = Inr xs \<Longrightarrow> length xs \<le> n"
  by (auto simp: py_slice_def slice_obj_length split: sval.splits)

lemma for_each_Cons_fst:
  "fst (for_each (x # xs) body) =
     (case snd (body x) of Inl e \<Rightarrow> fst (body x) | Inr u \<Rightarrow> fst (body x) @ fst (for_each xs body))"
  by (simp add: bind_eq split: sum.splits)

lemma for_each_count:
  assumes "\<And>x. length (filter P (fst (body x))) \<le> k"
  shows "length (filter P (fst (for_each xs body))) \<le> k * length xs"
proof (induction xs)
  case Nil
  then show ?case by simp
next
  case (Cons x xs)
  from assms [of x] Cons show ?case
    by (simp only: for_each_Cons_fst split: sum.splits) auto
qed

lemma player_body_cases:
  "(\<exists>e. player_body p = ([], Inl e)) \<or>
   (\<exists>a. player_body p = ([a], Inr ()) \<and> is_player_line a \<and> \<not> is_team_line a)"
  by (simp add: player_body_def bind_lift line_defs print_def split: sum.splits)

lemma player_body_player_lines: "length (filter is_player_line (fst (player_body p))) \<le> 1"
  using player_body_cases [of p] by auto

lemma player_body_team_lines: "length (filter is_team_line (fst (player_body p))) \<le> 0"
  using player_body_cases [of p] by auto

lemma players_player_lines:
  "length (filter is_player_line (fst (for_each xs player_body))) \<le> length xs"
  using for_each_count [of is_player_line player_body 1 xs] player_body_player_lines by simp

lemma players_team_lines:
  "filter is_team_line (fst (for_each xs player_body)) = []"
  using for_each_count [of is_team_line player_body 0 xs] player_body_team_lines by simp

lemma team_body_shape:
  "(\<exists>e. team_body team = ([], Inl e)) \<or>
   (\<exists>a rest r. team_body team = (a # rest, r) \<and> is_team_line a \<and> \<not> is_player_line a
       \<and> filter is_team_line rest = [] \<and> length (filter is_player_line rest) \<le> 3)"
proof -
  have roster: "filter is_team_line (fst (for_each xs player_body)) = []
      \<and> length (filter is_player_line (fst (for_each xs player_body))) \<le> 3"
    if "slice_obj v 3 = Inr xs" for v xs
    using slice_obj_length [OF that] players_player_lines [of xs] players_team_lines [of xs]
    by simp
  show ?thesis
    by (simp add: team_body_def bind_lift line_defs roster print_def ret_def split: sum.splits)
qed


lemma team_body_team_lines: "length (filter is_team_line (fst (team_body t))) \<le> 1"
  using team_body_shape [of t] by auto

lemma team_body_player_lines: "length (filter is_player_line (fst (team_body t))) \<le> 3"
  using team_body_shape [of t] by auto

lemma teams_team_lines:
  "length (filter is_team_line (fst (for_each ts team_body))) \<le> length ts"
  using for_each_count [of is_team_line team_body 1 ts] team_body_team_lines by simp

lemma teams_player_lines:
  "length (filter is_player_line (fst (for_each ts team_body))) \<le> 3 * length ts"
  using for_each_count [of is_player_line team_body 3 ts] team_body_player_lines by simp

lemma rosters_try_body_bounds:
  "length (filter is_team_line (fst (rosters_try_body lg))) \<le> 3
   \<and> length (filter is_player_line (fst (rosters_try_body lg))) \<le> 9"
proof -
  have loop: "length (filter is_team_line (fst (for_each xs team_body))) \<le> 3
      \<and> length (filter is_player_line (fst (for_each xs team_body))) \<le> 9"
    if "py_slice s 3 = Inr xs" for s xs
    using py_slice_length [OF that] teams_team_lines [of xs] teams_player_lines [of xs]
    by simp
  show ?thesis
    by (simp add: rosters_try_body_def bind_lift line_defs loop split: sum.splits)
qed

lemma rosters_bounds:
  "length (filter is_team_line (fst (test_teams_and_rosters league))) \<le> 3
   \<and> length (filter is_player_line (fst (test_teams_and_rosters league))) \<le> 9"
  using rosters_try_body_bounds
  by (simp add: test_teams_and_rosters_def try_except_cases line_defs
        split: option.splits sum.splits)

lemma rosters_with_teams:
  assumes "truthy lg" "getattr3 lg ''teams'' ([] :: pyval list) = Inr (Lib tv)" "proto tv = Sequence ts"
  shows "test_teams_and_rosters (Some lg) =
     ([nl @ people @ '' TESTING TEAMS AND ROSTERS'', rule50,
       bar_chart @ '' Found '' @ str_nat (length ts) @ '' teams'']
      @ fst (for_each (take 3 ts) team_body)
      @ (case snd (for_each (take 3 ts) team_body) of
           Inl e \<Rightarrow> [cross_mark @ '' Teams/roster access failed: '' @ message e]
         | Inr u \<Rightarrow> []),
      Inr ())"
  using assms
  by (simp add: test_teams_and_rosters_def rosters_try_body_def py_len_def py_slice_def
        len_obj_def slice_obj_def try_except_cases split: sum.splits)

lemma team_with_roster:
  assumes "reads_ok team [''team_id'', ''team_name'', ''owner'']"
    "hasattr team ''roster'' = Inr True" "getattr2 team ''roster'' = Inr roster"
    "proto roster = Sequence ps" "ps \<noteq> []"
  shows "team_body team =
     ([nl @ football @ '' Team '' @ shown_or team ''team_id'' ''Unknown'' @ '': ''
         @ shown_or team ''team_name'' ''Unknown'' @ '' (Owner: ''
         @ shown_or team ''owner'' ''Unknown'' @ '')'',
       ''  '' @ clipboard @ '' Roster size: '' @ str_nat (length ps)]
      @ fst (for_each (take 3 ps) player_body),
      snd (for_each (take 3 ps) player_body))"
proof -
  from assms(1) have "reads_ok team [''team_id'']" "reads_ok team [''team_name'']"
    "reads_ok team [''owner'']"
    by (simp_all add: reads_ok_def)
  with assms(2-) show ?thesis
    by (simp add: team_body_def getattr3_str py_str_case truthy_def len_obj_def slice_obj_def)
qed

subsection \<open>Attributes that are missing\<close>

lemma getattr3_absent: "map_of (attrs v) name = None \<Longrightarrow> getattr3 v name dflt = Inr (Lit dflt)"
  by (simp add: getattr3_def)

lemma shown_or_absent: "map_of (attrs v) name = None \<Longrightarrow> shown_or v name s = s"
  by (simp add: shown_or_def)

lemma league_fields:
  assumes "League 449753582 2025 = Inr lg" "reads_ok lg [''name'', ''current_week'']"
    "getattr3 lg ''teams'' ([] :: pyval list) = Inr teams" "py_len teams = Inr n"
  shows "test_league_access League =
     ([nl @ magnifier @ '' TESTING LEAGUE ACCESS'', rule50,
       bar_chart @ '' Connecting to League 449753582 (Year 2025)...'',
       check_mark @ '' League connected: '' @ shown_or lg ''name'' ''Unknown Name'',
       chart_up @ '' Teams: '' @ str_nat n,
       trophy @ '' Current week: '' @ shown_or lg ''current_week'' ''Unknown''],
      Inr (Some lg))"
proof -
  from assms(2) have "reads_ok lg [''name'']" "reads_ok lg [''current_week'']"
    by (simp_all add: reads_ok_def)
  with assms(1,3,4) show ?thesis
    by (simp add: test_league_access_def league_try_body_def str_league_id str_year
          league_id_def year_def getattr3_str py_str_case ret_def)
qed


lemma test_league_access_eq:
  "test_league_access League =
     (case snd (league_try_body League) of
        Inl e \<Rightarrow>
          ([nl @ magnifier @ '' TESTING LEAGUE ACCESS'', rule50] @ fst (league_try_body League)
           @ [cross_mark @ '' Public access failed: '' @ message e], Inr None)
      | Inr v \<Rightarrow>
          ([nl @ magnifier @ '' TESTING LEAGUE ACCESS'', rule50] @ fst (league_try_body League),
           Inr v))"
  by (simp add: test_league_access_def try_except_cases split: sum.splits)

lemma league_try_body_name:
  assumes "League 449753582 2025 = Inr lg" "reads_ok lg [''name'']"
  shows "\<exists>rest r. league_try_body League =
     ([bar_chart @ '' Connecting to League 449753582 (Year 2025)...'',
       check_mark @ '' League connected: '' @ shown_or lg ''name'' ''Unknown Name'']
      @ rest, r)"
  using assms
  by (simp add: league_try_body_def str_league_id str_year league_id_def year_def
        getattr3_str py_str_case)

lemma league_name_line:
  assumes "League 449753582 2025 = Inr lg" "reads_ok lg [''name'']"
  shows "\<exists>rest r. test_league_access League =
     ([nl @ magnifier @ '' TESTING LEAGUE ACCESS'', rule50,
       bar_chart @ '' Connecting to League 449753582 (Year 2025)...'',
       check_mark @ '' League connected: '' @ shown_or lg ''name'' ''Unknown Name'']
      @ rest, r)"
proof -
  from league_try_body_name [of League lg, OF assms] obtain out r where body:
    "league_try_body League =
     ([bar_chart @ '' Connecting to League 449753582 (Year 2025)...'',
       check_mark @ '' League connected: '' @ shown_or lg ''name'' ''Unknown Name'']
      @ out, r)"
    by blast
  show ?thesis
  proof (cases r)
    case (Inl e)
    have "test_league_access League =
      ([nl @ magnifier @ '' TESTING LEAGUE ACCESS'', rule50,
       bar_chart @ '' Connecting to League 449753582 (Year 2025)...'',
       check_mark @ '' League connected: '' @ shown_or lg ''name'' ''Unknown Name'']
      @ (out @ [cross_mark @ '' Public access failed: '' @ message e]), Inr None)"
      by (simp add: test_league_access_eq body Inl)
    then show ?thesis by blast
  next
    case (Inr v)
    have "test_league_access League =
      ([nl @ magnifier @ '' TESTING LEAGUE ACCESS'', rule50,
       bar_chart @ '' Connecting to League 449753582 (Year 2025)...'',
       check_mark @ '' League connected: '' @ shown_or lg ''name'' ''Unknown Name'']
      @ out, Inr v)"
      by (simp add: test_league_access_eq body Inr)
    then show ?thesis by blast
  qed
qed

lemma rosters_without_teams:
  assumes "truthy lg" "map_of (attrs lg) ''teams'' = None"
  shows "test_teams_and_rosters (Some lg) =
     ([nl @ people @ '' TESTING TEAMS AND ROSTERS'', rule50, bar_chart @ '' Found 0 teams''],
      Inr ())"
  using assms
  by (simp add: test_teams_and_rosters_def rosters_try_body_def getattr3_absent py_len_def
        py_slice_def str_nat.simps ret_def)

lemma team_line_reads_ok:
  assumes "reads_ok team [''team_id'', ''team_name'', ''owner'']"
  shows "\<exists>rest r. team_body team =
     ((nl @ football @ '' Team '' @ shown_or team ''team_id'' ''Unknown'' @ '': ''
         @ shown_or team ''team_name'' ''Unknown'' @ '' (Owner: ''
         @ shown_or team ''owner'' ''Unknown'' @ '')'') # rest, r)"
proof -
  from assms have "reads_ok team [''team_id'']" "reads_ok team [''team_name'']"
    "reads_ok team [''owner'']"
    by (simp_all add: reads_ok_def)
  then show ?thesis
    by (simp add: team_body_def getattr3_str py_str_case)
qed

lemma player_body_reads_ok:
  assumes "reads_ok player [''name'', ''position'']"
  shows "player_body player =
     ([''    - '' @ shown_or player ''name'' ''Unknown Player'' @ '' (''
         @ shown_or player ''position'' ''Unknown Position'' @ '')''], Inr ())"
proof -
  from assms have "reads_ok player [''name'']" "reads_ok player [''position'']"
    by (simp_all add: reads_ok_def)
  then show ?thesis
    by (simp add: player_body_def getattr3_str py_str_case print_def)
qed

subsection \<open>The league-access probe when the constructor raises\<close>

text \<open>
  Claim C1. If the construction of the league (the call of \<^verbatim>\<open>League\<close> with league
  449753582 and year 2025) raises an exception \<open>e\<close>, the league-access probe prints its
  heading, the line announcing the connection and the line
  \<^verbatim>\<open>Public access failed:\<close> followed by the message of \<open>e\<close>, and returns
  \<^verbatim>\<open>None\<close>; the exception does not leave the probe.
\<close>

theorem league_access_failure:
  assumes "League 449753582 2025 = Inl e"
  shows "test_league_access League =
           ([nl @ magnifier @ '' TESTING LEAGUE ACCESS'',
             rule50,
             bar_chart @ '' Connecting to League 449753582 (Year 2025)...'',
             cross_mark @ '' Public access failed: '' @ message e],
            Inr None)"
  using assms
  by (simp add: test_league_access_def league_try_body_def str_league_id str_year
        league_id_def year_def)

theorem league_access_failure_witness:
  "(\<lambda>i y. Inl (Exn OtherErr ''League 449753582 cannot be accessed'')) (449753582::int) (2025::int)
     = (Inl (Exn OtherErr ''League 449753582 cannot be accessed'') :: pyexn + pyval)
   \<and> test_league_access (\<lambda>i y. Inl (Exn OtherErr ''League 449753582 cannot be accessed'')) =
       ([nl @ magnifier @ '' TESTING LEAGUE ACCESS'',
         rule50,
         bar_chart @ '' Connecting to League 449753582 (Year 2025)...'',
         cross_mark @ '' Public access failed: League 449753582 cannot be accessed''],
        Inr None)"
  using league_access_failure
          [of "\<lambda>i y. Inl (Exn OtherErr ''League 449753582 cannot be accessed'')"
              "Exn OtherErr ''League 449753582 cannot be accessed''"]
  by simp

subsection \<open>The probes without a league\<close>

text \<open>
  Claim C2 says that after the league-access probe returned \<^verbatim>\<open>None\<close>, the draft-access
  probe and the roster-access probe each print a message that there is no league.
  The roster-access probe prints nothing: its guard (lines 84 and 85) returns at once.
\<close>

theorem rosters_probe_silent_without_league:
  "test_teams_and_rosters None = ([], Inr ())"
  by (simp add: test_teams_and_rosters_def ret_def)

text \<open>
  Claim C2, amended. With \<^verbatim>\<open>None\<close> for the league, the draft-access probe prints the
  one line \<^verbatim>\<open>No league to test draft access\<close> and returns, and the roster-access
  probe returns without printing anything; neither raises.
\<close>

theorem probes_without_league:
  "test_draft_access None = ([nl @ cross_mark @ '' No league to test draft access''], Inr ())
   \<and> fst (test_teams_and_rosters None) = []
   \<and> snd (test_teams_and_rosters None) = Inr ()"
  by (simp add: test_draft_access_def test_teams_and_rosters_def print_def)

subsection \<open>The import guard\<close>

text \<open>
  Claim C6 says that whenever the library cannot be imported, the script prints an
  import-failure message and ends with status 1. The guard catches \<^verbatim>\<open>ImportError\<close>
  only (line 9): when the import raises anything else (a \<^verbatim>\<open>SyntaxError\<close> in the
  library, say), the process ends with status 1 and no message is printed. The message
  is not printed either when the standard output cannot encode it.
\<close>

theorem import_failure_without_message:
  "script True (Inl (Exn OtherErr ''invalid syntax'')) = ([], 1)
   \<and> script False (Inl (Exn ImportErr (''No module named '' @ quote ''espn_api''))) = ([], 1)"
  by (simp add: script_def)

text \<open>
  Claim C6, amended. If the import of the library raises, the process ends with status 1
  before any probe is run, whatever the exception. If the exception is an
  \<^verbatim>\<open>ImportError\<close> \<open>e\<close> and the standard output can encode the message, the script
  prints the one line \<^verbatim>\<open>Failed to import ESPN API:\<close> with the message of \<open>e\<close>;
  otherwise it prints nothing.
\<close>

theorem import_failure_exits:
  "(imported = Inl e \<longrightarrow> snd (script encodes imported) = 1)
   \<and> (imported = Inl e \<and> kind e = ImportErr \<and> encodes \<longrightarrow>
        script encodes imported =
          ([cross_mark @ '' Failed to import ESPN API: '' @ message e], 1))
   \<and> (imported = Inl e \<and> (kind e \<noteq> ImportErr \<or> \<not> encodes) \<longrightarrow>
        script encodes imported = ([], 1))"
  by (auto simp add: script_def)

theorem import_failure_exits_witness:
  "script True (Inl (Exn ImportErr (''No module named '' @ quote ''espn_api''))) =
     ([cross_mark @ '' Failed to import ESPN API: No module named '' @ quote ''espn_api''], 1)
   \<and> script True (Inl (Exn TypeErr ''unsupported operand type(s)'')) = ([], 1)
   \<and> script False (Inl (Exn ImportErr ''cannot import name League'')) = ([], 1)"
  using
    import_failure_exits [of "Inl (Exn ImportErr (''No module named '' @ quote ''espn_api''))"
      "Exn ImportErr (''No module named '' @ quote ''espn_api'')" True]
    import_failure_exits [of "Inl (Exn TypeErr ''unsupported operand type(s)'')"
      "Exn TypeErr ''unsupported operand type(s)''" True]
    import_failure_exits [of "Inl (Exn ImportErr ''cannot import name League'')"
      "Exn ImportErr ''cannot import name League''" False]
  by simp

subsection \<open>The summary\<close>

text \<open>
  Claim C9. What \<open>main\<close> prints after the probes depends only on whether the
  league-access probe returned a league handle. If it returned \<^verbatim>\<open>None\<close>, the output
  ends with the verdict that the library could not connect and that authentication
  cookies may be needed. If it returned a handle, the output ends with the verdict that
  the library can connect and the three next steps (authentication cookies, a test during
  an active draft, the Discord monitoring system). A league handle is an instance of the
  library's class \<^verbatim>\<open>League\<close>, which defines neither \<^verbatim>\<open>__bool__\<close> nor \<^verbatim>\<open>__len__\<close>:
  it is truthy.
\<close>

theorem summary_report:
  "(test_league_access League = (out, Inr None) \<longrightarrow>
      main League =
        ([football @ '' ESPN API LIBRARY TEST'', ''Testing draft monitoring capabilities...'']
         @ out @ [nl @ cross_mark @ '' No league to test draft access''] @ summary_failed,
         Inr ()))
   \<and> (test_league_access League = (out, Inr (Some lg)) \<and> truthy lg \<longrightarrow>
      main League =
        ([football @ '' ESPN API LIBRARY TEST'', ''Testing draft monitoring capabilities...'']
         @ out @ fst (test_draft_access (Some lg)) @ fst (test_teams_and_rosters (Some lg))
         @ summary_connected,
         Inr ()))"
proof (intro conjI impI)
  assume a: "test_league_access League = (out, Inr None)"
  show "main League =
        ([football @ '' ESPN API LIBRARY TEST'', ''Testing draft monitoring capabilities...'']
         @ out @ [nl @ cross_mark @ '' No league to test draft access''] @ summary_failed,
         Inr ())"
    by (simp add: main_eq [OF a] truthy_opt_def test_draft_access_def
          test_teams_and_rosters_def)
next
  assume "test_league_access League = (out, Inr (Some lg)) \<and> truthy lg"
  then have a: "test_league_access League = (out, Inr (Some lg))" and t: "truthy lg"
    by simp_all
  show "main League =
        ([football @ '' ESPN API LIBRARY TEST'', ''Testing draft monitoring capabilities...'']
         @ out @ fst (test_draft_access (Some lg)) @ fst (test_teams_and_rosters (Some lg))
         @ summary_connected,
         Inr ())"
    by (simp add: main_eq [OF a] truthy_opt_def t)
qed

theorem summary_report_witness:
  "test_league_access failing_League =
     ([nl @ magnifier @ '' TESTING LEAGUE ACCESS'', rule50,
       bar_chart @ '' Connecting to League 449753582 (Year 2025)...'',
       cross_mark @ '' Public access failed: League 449753582 cannot be accessed''], Inr None)
   \<and> main failing_League =
     ([football @ '' ESPN API LIBRARY TEST'', ''Testing draft monitoring capabilities...'',
       nl @ magnifier @ '' TESTING LEAGUE ACCESS'', rule50,
       bar_chart @ '' Connecting to League 449753582 (Year 2025)...'',
       cross_mark @ '' Public access failed: League 449753582 cannot be accessed'',
       nl @ cross_mark @ '' No league to test draft access'',
       nl @ dart @ '' SUMMARY:'',
       cross_mark @ '' ESPN API library couldn'' @ [CHR 0x27] @ ''t connect to league'',
       bulb @ '' May need authentication cookies for private leagues''], Inr ())
   \<and> truthy bare_league
   \<and> test_league_access (\<lambda>i y. Inr bare_league) =
     ([nl @ magnifier @ '' TESTING LEAGUE ACCESS'', rule50,
       bar_chart @ '' Connecting to League 449753582 (Year 2025)...'',
       check_mark @ '' League connected: Unknown Name'',
       chart_up @ '' Teams: 0'',
       trophy @ '' Current week: Unknown''], Inr (Some bare_league))
   \<and> main (\<lambda>i y. Inr bare_league) =
     ([football @ '' ESPN API LIBRARY TEST'', ''Testing draft monitoring capabilities...'',
       nl @ magnifier @ '' TESTING LEAGUE ACCESS'', rule50,
       bar_chart @ '' Connecting to League 449753582 (Year 2025)...'',
       check_mark @ '' League connected: Unknown Name'',
       chart_up @ '' Teams: 0'',
       trophy @ '' Current week: Unknown'',
       nl @ dart @ '' TESTING DRAFT ACCESS'', rule50,
       cross_mark @ '' League has no '' @ quote ''draft'' @ '' attribute'',
       clipboard @ '' Available league attributes: ['' @ quote ''league_id'' @ '']'',
       nl @ people @ '' TESTING TEAMS AND ROSTERS'', rule50,
       bar_chart @ '' Found 0 teams'',
       nl @ dart @ '' SUMMARY:'',
       check_mark @ '' ESPN API library can connect to your league!'',
       dart @ '' This might be the solution for live draft monitoring!'',
       nl @ bulb @ '' Next steps:'',
       ''1. Add authentication cookies for private league access'',
       ''2. Test during active draft'',
       ''3. Integrate with Discord monitoring system''], Inr ())"
proof -
  have l1: "test_league_access failing_League =
     ([nl @ magnifier @ '' TESTING LEAGUE ACCESS'', rule50,
       bar_chart @ '' Connecting to League 449753582 (Year 2025)...'',
       cross_mark @ '' Public access failed: League 449753582 cannot be accessed''], Inr None)"
    by (simp add: test_league_access_def league_try_body_def failing_League_def
          str_league_id str_year league_id_def year_def)
  have t: "truthy bare_league"
    by (simp add: bare_league_def league_obj_def truthy_def)
  have l2: "test_league_access (\<lambda>i y. Inr bare_league) =
     ([nl @ magnifier @ '' TESTING LEAGUE ACCESS'', rule50,
       bar_chart @ '' Connecting to League 449753582 (Year 2025)...'',
       check_mark @ '' League connected: Unknown Name'',
       chart_up @ '' Teams: 0'',
       trophy @ '' Current week: Unknown''], Inr (Some bare_league))"
    by (simp add: test_league_access_def league_try_body_def bare_league_def
          str_league_id str_year league_id_def year_def builtin_defs example_defs str_nat.simps)
  have d: "fst (test_draft_access (Some bare_league)) =
     [nl @ dart @ '' TESTING DRAFT ACCESS'', rule50,
       cross_mark @ '' League has no '' @ quote ''draft'' @ '' attribute'',
       clipboard @ '' Available league attributes: ['' @ quote ''league_id'' @ '']'']"
    by (simp add: test_draft_access_def draft_try_body_def bare_league_def
          builtin_defs example_defs py_dir_def str_names_def startswith_def
          less_eq_char_def less_char_def)
  have r: "fst (test_teams_and_rosters (Some bare_league)) =
     [nl @ people @ '' TESTING TEAMS AND ROSTERS'', rule50, bar_chart @ '' Found 0 teams'']"
    by (simp add: test_teams_and_rosters_def rosters_try_body_def bare_league_def
          builtin_defs example_defs str_nat.simps)
  from summary_report [of failing_League _ bare_league] l1
  have m1: "main failing_League =
     ([football @ '' ESPN API LIBRARY TEST'', ''Testing draft monitoring capabilities...'']
      @ fst (test_league_access failing_League)
      @ [nl @ cross_mark @ '' No league to test draft access''] @ summary_failed, Inr ())"
    by simp
  from summary_report [of "\<lambda>i y. Inr bare_league" _ bare_league] l2 t
  have m2: "main (\<lambda>i y. Inr bare_league) =
     ([football @ '' ESPN API LIBRARY TEST'', ''Testing draft monitoring capabilities...'']
      @ fst (test_league_access (\<lambda>i y. Inr bare_league))
      @ fst (test_draft_access (Some bare_league)) @ fst (test_teams_and_rosters (Some bare_league))
      @ summary_connected, Inr ())"
    by simp
  show ?thesis
    using l1 t l2 m1 m2 d r
    by (simp add: summary_connected_def summary_failed_def)
qed


subsection \<open>Collections that are present and falsy\<close>

text \<open>
  Claim C10. When the draft has a \<^verbatim>\<open>picks\<close> attribute whose value is falsy
  (\<^verbatim>\<open>None\<close>, an empty list), the draft-access probe prints the count 0 (the length is
  not taken), then \<^verbatim>\<open>No draft picks found in picks array\<close>, visits no pick and
  raises nothing. When a team has a \<^verbatim>\<open>roster\<close> attribute whose value is falsy, the
  roster-access probe prints the team line and \<^verbatim>\<open>Roster size: 0\<close>, no player, and
  raises nothing.
\<close>

theorem falsy_collections:
  "(truthy lg \<and> hasattr lg ''draft'' = Inr True \<and> getattr2 lg ''draft'' = Inr d \<and>
    hasattr d ''picks'' = Inr True \<and> getattr2 d ''picks'' = Inr picks \<and> \<not> truthy picks \<longrightarrow>
      test_draft_access (Some lg) =
        ([nl @ dart @ '' TESTING DRAFT ACCESS'', rule50,
          check_mark @ '' League has draft attribute!'',
          clipboard @ '' Draft object: '' @ type_str d,
          dart @ '' Total draft picks found: 0'',
          cross_mark @ '' No draft picks found in picks array''], Inr ()))
   \<and> (getattr3 team ''team_id'' ''Unknown'' = Inr team_id \<and>
        getattr3 team ''team_name'' ''Unknown'' = Inr team_name \<and>
        getattr3 team ''owner'' ''Unknown'' = Inr owner \<and>
        hasattr team ''roster'' = Inr True \<and> getattr2 team ''roster'' = Inr roster \<and>
        \<not> truthy roster \<longrightarrow>
      team_body team =
        ([nl @ football @ '' Team '' @ py_str team_id @ '': '' @ py_str team_name
            @ '' (Owner: '' @ py_str owner @ '')'',
          ''  '' @ clipboard @ '' Roster size: 0''], Inr ()))"
  by (simp add: test_draft_access_def draft_try_body_def team_body_def str_nat.simps)

theorem falsy_collections_witness:
  "test_draft_access (Some (league_with_picks none_obj)) =
     ([nl @ dart @ '' TESTING DRAFT ACCESS'', rule50,
       check_mark @ '' League has draft attribute!'',
       clipboard @ '' Draft object: <class '' @ quote ''espn_api.football.draft.Draft'' @ ''>'',
       dart @ '' Total draft picks found: 0'',
       cross_mark @ '' No draft picks found in picks array''], Inr ())
   \<and> test_draft_access (Some (league_with_picks (list_obj ''[]'' []))) =
     ([nl @ dart @ '' TESTING DRAFT ACCESS'', rule50,
       check_mark @ '' League has draft attribute!'',
       clipboard @ '' Draft object: <class '' @ quote ''espn_api.football.draft.Draft'' @ ''>'',
       dart @ '' Total draft picks found: 0'',
       cross_mark @ '' No draft picks found in picks array''], Inr ())
   \<and> team_body (team_obj 4 ''Gridiron Gang'' none_obj) =
     ([nl @ football @ '' Team 4: Gridiron Gang (Owner: Unknown)'',
       ''  '' @ clipboard @ '' Roster size: 0''], Inr ())
   \<and> team_body (team_obj 5 ''End Zone'' (list_obj ''[]'' [])) =
     ([nl @ football @ '' Team 5: End Zone (Owner: Unknown)'',
       ''  '' @ clipboard @ '' Roster size: 0''], Inr ())"
  using
    falsy_collections [of "league_with_picks none_obj" "draft_obj [(''picks'', Value none_obj)]"
      none_obj "team_obj 4 ''Gridiron Gang'' none_obj" "Lib (int_obj 4)"
      "Lib (str_obj ''Gridiron Gang'')" "Lit ''Unknown''" none_obj]
    falsy_collections [of "league_with_picks (list_obj ''[]'' [])"
      "draft_obj [(''picks'', Value (list_obj ''[]'' []))]"
      "list_obj ''[]'' []" "team_obj 5 ''End Zone'' (list_obj ''[]'' [])" "Lib (int_obj 5)"
      "Lib (str_obj ''End Zone'')" "Lit ''Unknown''" "list_obj ''[]'' []"]
  by (simp add: league_with_picks_def builtin_defs example_defs str_nat.simps class_str_def)

subsection \<open>The capability checks of the draft-access probe\<close>

text \<open>
  Claim C8. Given a league handle, the draft-access probe first asks whether the handle
  has a \<^verbatim>\<open>draft\<close> attribute. If not, it prints \<^verbatim>\<open>League has no 'draft' attribute\<close>
  and the list of the attribute names of the league that do not start with an underscore,
  and looks no further. If so, it asks whether the draft object has a \<^verbatim>\<open>picks\<close>
  attribute; if not, it prints \<^verbatim>\<open>Draft object has no 'picks' attribute\<close> and the list
  of all attribute names of the draft object. The lists are those of \<^verbatim>\<open>dir\<close>: every
  name of the attribute table, once, in order.
\<close>

theorem draft_capability_checks:
  "(truthy lg \<and> hasattr lg ''draft'' = Inr False \<longrightarrow>
      test_draft_access (Some lg) =
        ([nl @ dart @ '' TESTING DRAFT ACCESS'', rule50,
          cross_mark @ '' League has no '' @ quote ''draft'' @ '' attribute'',
          clipboard @ '' Available league attributes: ''
            @ str_names (filter (\<lambda>a. \<not> startswith a ''_'') (py_dir lg))], Inr ()))
   \<and> (truthy lg \<and> hasattr lg ''draft'' = Inr True \<and> getattr2 lg ''draft'' = Inr d \<and>
        hasattr d ''picks'' = Inr False \<longrightarrow>
      test_draft_access (Some lg) =
        ([nl @ dart @ '' TESTING DRAFT ACCESS'', rule50,
          check_mark @ '' League has draft attribute!'',
          clipboard @ '' Draft object: '' @ type_str d,
          cross_mark @ '' Draft object has no '' @ quote ''picks'' @ '' attribute'',
          clipboard @ '' Available draft attributes: '' @ str_names (py_dir d)], Inr ()))
   \<and> set (py_dir d) = fst ` set (attrs d) \<and> sorted (py_dir d) \<and> distinct (py_dir d)
   \<and> set (filter (\<lambda>a. \<not> startswith a ''_'') (py_dir lg)) =
       {a. a \<in> fst ` set (attrs lg) \<and> (\<forall>b. a \<noteq> CHR ''_'' # b)}"
  by (auto simp add: test_draft_access_def draft_try_body_def set_py_dir sorted_py_dir
        distinct_py_dir startswith_underscore)

theorem draft_capability_checks_witness:
  "test_draft_access (Some league_without_draft) =
     ([nl @ dart @ '' TESTING DRAFT ACCESS'', rule50,
       cross_mark @ '' League has no '' @ quote ''draft'' @ '' attribute'',
       clipboard @ '' Available league attributes: ['' @ quote ''league_id'' @ '', ''
         @ quote ''year'' @ '']''], Inr ())
   \<and> test_draft_access (Some league_without_picks) =
     ([nl @ dart @ '' TESTING DRAFT ACCESS'', rule50,
       check_mark @ '' League has draft attribute!'',
       clipboard @ '' Draft object: <class '' @ quote ''espn_api.football.draft.Draft'' @ ''>'',
       cross_mark @ '' Draft object has no '' @ quote ''picks'' @ '' attribute'',
       clipboard @ '' Available draft attributes: ['' @ quote ''__doc__'' @ '', ''
         @ quote ''order'' @ '']''], Inr ())"
  using
    draft_capability_checks [of league_without_draft
      "draft_obj [(''order'', Value none_obj), (''__doc__'', Value none_obj)]"]
    draft_capability_checks [of league_without_picks
      "draft_obj [(''order'', Value none_obj), (''__doc__'', Value none_obj)]"]
  by (simp add: league_without_draft_def league_without_picks_def builtin_defs example_defs
        py_dir_def str_names_def startswith_def less_eq_char_def less_char_def class_str_def)

subsection \<open>Exceptions and the exit status\<close>

text \<open>
  Claim C7 says that the exit status is not zero only when the import fails. The line
  that line 8 prints after a successful import holds an emoji, and the \<^verbatim>\<open>try\<close> around
  it catches \<^verbatim>\<open>ImportError\<close> only: on a standard output that cannot encode the emoji the
  \<^verbatim>\<open>print\<close> raises, no probe runs, and the process ends with status 1 although the
  import succeeded.
\<close>

theorem successful_import_exits_nonzero:
  "script False (Inr bare_League) = ([], 1)"
  by (simp add: script_def)

text \<open>
  Claim C7, amended. The exit status of the process is not zero exactly when the import
  raises (whatever the exception) or the standard output cannot encode the text of the
  script: it is 1 then, and 0 in every other run. In those other runs, and whatever the
  league, draft or roster access raises, none of the three probes lets an exception out:
  when the body of its \<^verbatim>\<open>try\<close> raises \<open>e\<close>, the probe prints what the body had printed,
  then its diagnostic line with the message of \<open>e\<close>, and returns. The run then goes on to
  the summary: the output of the script ends with one of the two verdicts, and the status
  is 0.
\<close>

theorem exceptions_are_caught:
  "snd (script encodes imported) =
     (case imported of Inl e \<Rightarrow> 1 | Inr League \<Rightarrow> if encodes then 0 else 1)
   \<and> (\<exists>v. snd (test_league_access League) = Inr v)
   \<and> snd (test_draft_access league) = Inr ()
   \<and> snd (test_teams_and_rosters league) = Inr ()
   \<and> (league_try_body League = (out1, Inl e1) \<longrightarrow>
        test_league_access League =
          ([nl @ magnifier @ '' TESTING LEAGUE ACCESS'', rule50] @ out1
           @ [cross_mark @ '' Public access failed: '' @ message e1], Inr None))
   \<and> (truthy lg \<and> draft_try_body lg = (out2, Inl e2) \<longrightarrow>
        test_draft_access (Some lg) =
          ([nl @ dart @ '' TESTING DRAFT ACCESS'', rule50] @ out2
           @ [cross_mark @ '' Draft access failed: '' @ message e2], Inr ()))
   \<and> (truthy lg \<and> rosters_try_body lg = (out3, Inl e3) \<longrightarrow>
        test_teams_and_rosters (Some lg) =
          ([nl @ people @ '' TESTING TEAMS AND ROSTERS'', rule50] @ out3
           @ [cross_mark @ '' Teams/roster access failed: '' @ message e3], Inr ()))
   \<and> (\<exists>pre verdict.
        script True (Inr League) =
          ((check_mark @ '' ESPN API library imported successfully!'') # pre @ verdict, 0)
        \<and> (verdict = summary_connected \<or> verdict = summary_failed))"
proof (intro conjI)
  obtain pre verdict where m: "main League = (pre @ verdict, Inr ())"
      and v: "verdict = summary_connected \<or> verdict = summary_failed"
    using main_reaches_summary [of League] by blast
  show "snd (script encodes imported) =
     (case imported of Inl e \<Rightarrow> 1 | Inr League \<Rightarrow> if encodes then 0 else 1)"
  proof (cases imported)
    case (Inl e)
    then show ?thesis by (simp add: script_def)
  next
    case (Inr L)
    from main_reaches_summary [of L] obtain o' where "main L = (o', Inr ())" by blast
    with Inr show ?thesis by (simp add: script_def)
  qed
  show "\<exists>v. snd (test_league_access League) = Inr v"
    by (rule test_league_access_returns)
  show "snd (test_draft_access league) = Inr ()"
    by (rule test_draft_access_returns)
  show "snd (test_teams_and_rosters league) = Inr ()"
    by (rule test_teams_and_rosters_returns)
  show "league_try_body League = (out1, Inl e1) \<longrightarrow>
        test_league_access League =
          ([nl @ magnifier @ '' TESTING LEAGUE ACCESS'', rule50] @ out1
           @ [cross_mark @ '' Public access failed: '' @ message e1], Inr None)"
    by (simp add: test_league_access_def)
  show "truthy lg \<and> draft_try_body lg = (out2, Inl e2) \<longrightarrow>
        test_draft_access (Some lg) =
          ([nl @ dart @ '' TESTING DRAFT ACCESS'', rule50] @ out2
           @ [cross_mark @ '' Draft access failed: '' @ message e2], Inr ())"
    by (simp add: test_draft_access_def)
  show "truthy lg \<and> rosters_try_body lg = (out3, Inl e3) \<longrightarrow>
        test_teams_and_rosters (Some lg) =
          ([nl @ people @ '' TESTING TEAMS AND ROSTERS'', rule50] @ out3
           @ [cross_mark @ '' Teams/roster access failed: '' @ message e3], Inr ())"
    by (simp add: test_teams_and_rosters_def)
  from m have "script True (Inr League) =
          ((check_mark @ '' ESPN API library imported successfully!'') # pre @ verdict, 0)"
    by (simp add: script_def)
  with v show "\<exists>pre verdict.
        script True (Inr League) =
          ((check_mark @ '' ESPN API library imported successfully!'') # pre @ verdict, 0)
        \<and> (verdict = summary_connected \<or> verdict = summary_failed)"
    by blast
qed


theorem exceptions_are_caught_witness:
  "league_try_body (\<lambda>i y. Inr league_teams_int) =
     ([bar_chart @ '' Connecting to League 449753582 (Year 2025)...'',
       check_mark @ '' League connected: Sunday League''],
      Inl (Exn TypeErr (''object of type '' @ quote ''int'' @ '' has no len()'')))
   \<and> script True (Inr (\<lambda>i y. Inr league_teams_int)) =
     ([check_mark @ '' ESPN API library imported successfully!'',
       football @ '' ESPN API LIBRARY TEST'', ''Testing draft monitoring capabilities...'',
       nl @ magnifier @ '' TESTING LEAGUE ACCESS'', rule50,
       bar_chart @ '' Connecting to League 449753582 (Year 2025)...'',
       check_mark @ '' League connected: Sunday League'',
       cross_mark @ '' Public access failed: object of type '' @ quote ''int'' @ '' has no len()'',
       nl @ cross_mark @ '' No league to test draft access'',
       nl @ dart @ '' SUMMARY:'',
       cross_mark @ '' ESPN API library couldn'' @ [CHR 0x27] @ ''t connect to league'',
       bulb @ '' May need authentication cookies for private leagues''], 0)
   \<and> truthy league_broken
   \<and> draft_try_body league_broken = ([], Inl (Exn OtherErr ''draft data not loaded''))
   \<and> rosters_try_body league_broken =
       ([bar_chart @ '' Found 2 teams''],
        Inl (Exn TypeErr (quote ''set'' @ '' object is not subscriptable'')))
   \<and> script True (Inr (\<lambda>i y. Inr league_broken)) =
     ([check_mark @ '' ESPN API library imported successfully!'',
       football @ '' ESPN API LIBRARY TEST'', ''Testing draft monitoring capabilities...'',
       nl @ magnifier @ '' TESTING LEAGUE ACCESS'', rule50,
       bar_chart @ '' Connecting to League 449753582 (Year 2025)...'',
       check_mark @ '' League connected: Unknown Name'',
       chart_up @ '' Teams: 2'',
       trophy @ '' Current week: Unknown'',
       nl @ dart @ '' TESTING DRAFT ACCESS'', rule50,
       cross_mark @ '' Draft access failed: draft data not loaded'',
       nl @ people @ '' TESTING TEAMS AND ROSTERS'', rule50,
       bar_chart @ '' Found 2 teams'',
       cross_mark @ '' Teams/roster access failed: '' @ quote ''set''
         @ '' object is not subscriptable'',
       nl @ dart @ '' SUMMARY:'',
       check_mark @ '' ESPN API library can connect to your league!'',
       dart @ '' This might be the solution for live draft monitoring!'',
       nl @ bulb @ '' Next steps:'',
       ''1. Add authentication cookies for private league access'',
       ''2. Test during active draft'',
       ''3. Integrate with Discord monitoring system''], 0)
   \<and> script False (Inr (\<lambda>i y. Inr league_broken)) = ([], 1)
   \<and> script True (Inl (Exn OtherErr ''invalid syntax'')) = ([], 1)"
proof -
  have b1: "league_try_body (\<lambda>i y. Inr league_teams_int) =
     ([bar_chart @ '' Connecting to League 449753582 (Year 2025)...'',
       check_mark @ '' League connected: Sunday League''],
      Inl (Exn TypeErr (''object of type '' @ quote ''int'' @ '' has no len()'')))"
    by (simp add: league_try_body_def league_teams_int_def str_league_id str_year
          league_id_def year_def builtin_defs example_defs)
  have t: "truthy league_broken"
    by (simp add: league_broken_def league_obj_def truthy_def)
  have b2: "draft_try_body league_broken = ([], Inl (Exn OtherErr ''draft data not loaded''))"
    by (simp add: draft_try_body_def league_broken_def builtin_defs example_defs)
  have b3: "rosters_try_body league_broken =
       ([bar_chart @ '' Found 2 teams''],
        Inl (Exn TypeErr (quote ''set'' @ '' object is not subscriptable'')))"
    by (simp add: rosters_try_body_def league_broken_def builtin_defs example_defs
          str_nat.simps)
  have l3: "test_league_access (\<lambda>i y. Inr league_broken) =
     ([nl @ magnifier @ '' TESTING LEAGUE ACCESS'', rule50,
       bar_chart @ '' Connecting to League 449753582 (Year 2025)...'',
       check_mark @ '' League connected: Unknown Name'',
       chart_up @ '' Teams: 2'',
       trophy @ '' Current week: Unknown''], Inr (Some league_broken))"
    by (simp add: test_league_access_def league_try_body_def league_broken_def
          str_league_id str_year league_id_def year_def builtin_defs example_defs
          str_nat.simps)
  note c1 = exceptions_are_caught [where League = "\<lambda>i y. Inr league_teams_int"
      and lg = league_broken
      and ?out1.0 = "[bar_chart @ '' Connecting to League 449753582 (Year 2025)...'',
        check_mark @ '' League connected: Sunday League'']"
      and ?e1.0 = "Exn TypeErr (''object of type '' @ quote ''int'' @ '' has no len()'')"
      and ?out2.0 = "[]" and ?e2.0 = "Exn OtherErr ''draft data not loaded''"
      and ?out3.0 = "[bar_chart @ '' Found 2 teams'']"
      and ?e3.0 = "Exn TypeErr (quote ''set'' @ '' object is not subscriptable'')"]
  from c1 b1 have l1: "test_league_access (\<lambda>i y. Inr league_teams_int) =
          ([nl @ magnifier @ '' TESTING LEAGUE ACCESS'', rule50,
            bar_chart @ '' Connecting to League 449753582 (Year 2025)...'',
            check_mark @ '' League connected: Sunday League'',
            cross_mark @ '' Public access failed: object of type '' @ quote ''int''
              @ '' has no len()''], Inr None)"
    by simp
  from c1 b2 t have d3: "test_draft_access (Some league_broken) =
          ([nl @ dart @ '' TESTING DRAFT ACCESS'', rule50,
            cross_mark @ '' Draft access failed: draft data not loaded''], Inr ())"
    by simp
  from c1 b3 t have r3: "test_teams_and_rosters (Some league_broken) =
          ([nl @ people @ '' TESTING TEAMS AND ROSTERS'', rule50,
            bar_chart @ '' Found 2 teams'',
            cross_mark @ '' Teams/roster access failed: '' @ quote ''set''
              @ '' object is not subscriptable''], Inr ())"
    by simp
  have m1: "main (\<lambda>i y. Inr league_teams_int) =
     ([football @ '' ESPN API LIBRARY TEST'', ''Testing draft monitoring capabilities...'']
      @ fst (test_league_access (\<lambda>i y. Inr league_teams_int))
      @ [nl @ cross_mark @ '' No league to test draft access''] @ summary_failed, Inr ())"
    using main_eq [OF l1]
    by (simp add: l1 truthy_opt_def test_draft_access_def test_teams_and_rosters_def)
  have m3: "main (\<lambda>i y. Inr league_broken) =
     ([football @ '' ESPN API LIBRARY TEST'', ''Testing draft monitoring capabilities...'']
      @ fst (test_league_access (\<lambda>i y. Inr league_broken))
      @ fst (test_draft_access (Some league_broken))
      @ fst (test_teams_and_rosters (Some league_broken)) @ summary_connected, Inr ())"
    using main_eq [OF l3] t by (simp add: l3 truthy_opt_def)
  show ?thesis
    using b1 t b2 b3
    by (simp add: script_def m1 m3 l1 l3 d3 r3 summary_connected_def summary_failed_def)
qed


subsection \<open>The report of the picks\<close>

text \<open>
  Claim C3. When the draft has picks (a non-empty sequence), the draft-access probe prints
  the total number of picks and the heading \<^verbatim>\<open>DRAFT PICKS DETECTED\<close>, then loops over the
  first ten picks and leaves the loop after the sixth. The lines that open the report of
  a pick are therefore never more than the lesser of the number of picks and six, hence
  never more than the lesser of the number of picks and ten. When no field of the first
  six picks raises, the picks reported are exactly the first six (or all, if fewer), each
  with its round number and pick number on one line and its team identifier and player
  name on the next, the placeholder standing for a field that is missing.
\<close>

theorem draft_picks_report:
  assumes "truthy lg" and "hasattr lg ''draft'' = Inr True" and "getattr2 lg ''draft'' = Inr d"
    and "hasattr d ''picks'' = Inr True" and "getattr2 d ''picks'' = Inr picks"
    and "proto picks = Sequence ps" and "ps \<noteq> []"
  shows "test_draft_access (Some lg) =
          ([nl @ dart @ '' TESTING DRAFT ACCESS'', rule50,
            check_mark @ '' League has draft attribute!'',
            clipboard @ '' Draft object: '' @ type_str d,
            dart @ '' Total draft picks found: '' @ str_nat (length ps),
            nl @ bar_chart @ '' DRAFT PICKS DETECTED:'']
           @ fst (for_picks (enumerate 0 (take 10 ps)))
           @ (case snd (for_picks (enumerate 0 (take 10 ps))) of
                Inl e \<Rightarrow> [cross_mark @ '' Draft access failed: '' @ message e]
              | Inr u \<Rightarrow> []),
           Inr ())
       \<and> length (filter is_pick_line (fst (test_draft_access (Some lg)))) \<le> min (length ps) 6
       \<and> length (filter is_pick_line (fst (test_draft_access (Some lg)))) \<le> min (length ps) 10
       \<and> ((\<forall>p \<in> set (take 6 ps).
              reads_ok p [''player_name'', ''team_id'', ''round_num'', ''pick_num'']) \<longrightarrow>
            test_draft_access (Some lg) =
              ([nl @ dart @ '' TESTING DRAFT ACCESS'', rule50,
                check_mark @ '' League has draft attribute!'',
                clipboard @ '' Draft object: '' @ type_str d,
                dart @ '' Total draft picks found: '' @ str_nat (length ps),
                nl @ bar_chart @ '' DRAFT PICKS DETECTED:'']
               @ concat (map (\<lambda>(i, p). pick_report i p) (enumerate 0 (take 6 ps))),
               Inr ())
            \<and> length (filter is_pick_line (fst (test_draft_access (Some lg)))) = min (length ps) 6)"
proof -
  let ?loop = "for_picks (enumerate 0 (take 10 ps))"
  let ?head = "[nl @ dart @ '' TESTING DRAFT ACCESS'', rule50,
            check_mark @ '' League has draft attribute!'',
            clipboard @ '' Draft object: '' @ type_str d,
            dart @ '' Total draft picks found: '' @ str_nat (length ps),
            nl @ bar_chart @ '' DRAFT PICKS DETECTED:'']"
  note out = draft_with_picks [OF assms]
  have head: "filter is_pick_line ?head = []"
    by (simp add: line_defs)
  have tail: "filter is_pick_line
      (case snd ?loop of Inl e \<Rightarrow> [cross_mark @ '' Draft access failed: '' @ message e]
       | Inr u \<Rightarrow> []) = []"
    by (simp add: line_defs split: sum.splits)
  have count: "length (filter is_pick_line (fst (test_draft_access (Some lg)))) =
      length (filter is_pick_line (fst ?loop))"
    by (simp only: out fst_conv filter_append head tail append_Nil append_Nil2)
  from for_picks_count [of 0 "take 10 ps"]
  have bound: "length (filter is_pick_line (fst ?loop)) \<le> min (length ps) 6"
    by simp
  have exact: "test_draft_access (Some lg) =
      (?head @ concat (map (\<lambda>(i, p). pick_report i p) (enumerate 0 (take 6 ps))), Inr ())
      \<and> length (filter is_pick_line (fst (test_draft_access (Some lg)))) = min (length ps) 6"
    if ok: "\<forall>p \<in> set (take 6 ps).
              reads_ok p [''player_name'', ''team_id'', ''round_num'', ''pick_num'']"
  proof -
    have bodies: "pick_body i p = (pick_report i p, Inr ())"
      if "(i, p) \<in> set (enumerate 0 (take 6 (take 10 ps)))" for i p
    proof -
      from that have "p \<in> set (take 6 ps)"
        by (auto simp: enumerate_eq_zip dest: set_zip_rightD)
      with ok have "reads_ok p [''player_name'', ''team_id'', ''round_num'', ''pick_num'']"
        by blast
      then show ?thesis
        by (simp add: pick_body_reads_ok pick_report_def)
    qed
    then have "\<forall>(i, p) \<in> set (enumerate 0 (take 6 (take 10 ps))). snd (pick_body i p) = Inr ()"
      by auto
    from for_picks_exact [of 0 6 "take 10 ps", OF _ _ this]
    have "?loop = (concat (map (\<lambda>(i, p). fst (pick_body i p))
                     (enumerate 0 (take 6 (take 10 ps)))), Inr ())"
      by simp
    also have "map (\<lambda>(i, p). fst (pick_body i p)) (enumerate 0 (take 6 (take 10 ps))) =
               map (\<lambda>(i, p). pick_report i p) (enumerate 0 (take 6 (take 10 ps)))"
      using bodies by (intro map_cong refl) auto
    finally have loop: "?loop = (concat (map (\<lambda>(i, p). pick_report i p)
                                   (enumerate 0 (take 6 ps))), Inr ())"
      by simp
    have n: "length (filter is_pick_line (fst ?loop)) = min (length ps) 6"
      by (simp only: loop fst_conv count_pick_reports length_enumerate length_take)
    have "test_draft_access (Some lg) =
      (?head @ concat (map (\<lambda>(i, p). pick_report i p) (enumerate 0 (take 6 ps))), Inr ())"
      by (simp only: out loop fst_conv snd_conv sum.case append_Nil2)
    moreover have "length (filter is_pick_line (fst (test_draft_access (Some lg)))) =
      min (length ps) 6"
      by (simp only: count n)
    ultimately show ?thesis by (rule conjI)
  qed
  have le6: "length (filter is_pick_line (fst (test_draft_access (Some lg)))) \<le> min (length ps) 6"
    unfolding count by (rule bound)
  have "min (length ps) 6 \<le> min (length ps) 10"
    by simp
  with le6 have le10:
    "length (filter is_pick_line (fst (test_draft_access (Some lg)))) \<le> min (length ps) 10"
    by (rule order_trans)
  from exact have imp: "(\<forall>p \<in> set (take 6 ps).
              reads_ok p [''player_name'', ''team_id'', ''round_num'', ''pick_num'']) \<longrightarrow>
      test_draft_access (Some lg) =
      (?head @ concat (map (\<lambda>(i, p). pick_report i p) (enumerate 0 (take 6 ps))), Inr ())
      \<and> length (filter is_pick_line (fst (test_draft_access (Some lg)))) = min (length ps) 6"
    by (rule impI)
  from out le6 le10 imp show ?thesis
    by (intro conjI)
qed


theorem draft_picks_report_witness:
  "test_draft_access (Some (league_with_picks seven_picks)) =
     ([nl @ dart @ '' TESTING DRAFT ACCESS'', rule50,
       check_mark @ '' League has draft attribute!'',
       clipboard @ '' Draft object: <class '' @ quote ''espn_api.football.draft.Draft'' @ ''>'',
       dart @ '' Total draft picks found: 7'',
       nl @ bar_chart @ '' DRAFT PICKS DETECTED:'',
       ''  Pick 1: Round 1, Pick 1'', ''           Team 3 '' @ right_arrow @ '' Unknown Player'',
       ''  Pick 2: Round 1, Pick 2'', ''           Team 3 '' @ right_arrow @ '' Unknown Player'',
       ''  Pick 3: Round 1, Pick 3'', ''           Team 3 '' @ right_arrow @ '' Unknown Player'',
       ''  Pick 4: Round 1, Pick 4'', ''           Team 3 '' @ right_arrow @ '' Unknown Player'',
       ''  Pick 5: Round 2, Pick 5'', ''           Team 3 '' @ right_arrow @ '' Unknown Player'',
       ''  Pick 6: Round 2, Pick 6'', ''           Team 3 '' @ right_arrow @ '' Unknown Player''],
      Inr ())
   \<and> length (filter is_pick_line (fst (test_draft_access (Some (league_with_picks seven_picks)))))
       = 6"
proof -
  note r = draft_picks_report [of "league_with_picks seven_picks"
      "draft_obj [(''picks'', Value seven_picks)]" seven_picks
      "[pick_obj 1 1, pick_obj 1 2, pick_obj 1 3, pick_obj 1 4, pick_obj 2 5, pick_obj 2 6,
        pick_obj 2 7]"]
  have h: "truthy (league_with_picks seven_picks)"
    "hasattr (league_with_picks seven_picks) ''draft'' = Inr True"
    "getattr2 (league_with_picks seven_picks) ''draft'' = Inr (draft_obj [(''picks'', Value seven_picks)])"
    "hasattr (draft_obj [(''picks'', Value seven_picks)]) ''picks'' = Inr True"
    "getattr2 (draft_obj [(''picks'', Value seven_picks)]) ''picks'' = Inr seven_picks"
    "proto seven_picks = Sequence [pick_obj 1 1, pick_obj 1 2, pick_obj 1 3, pick_obj 1 4,
        pick_obj 2 5, pick_obj 2 6, pick_obj 2 7]"
    by (simp_all add: league_with_picks_def seven_picks_def league_obj_def draft_obj_def
          list_obj_def truthy_def hasattr_def getattr2_def)
  have ok: "\<forall>p \<in> set (take 6 [pick_obj 1 1, pick_obj 1 2, pick_obj 1 3, pick_obj 1 4,
        pick_obj 2 5, pick_obj 2 6, pick_obj 2 7]).
      reads_ok p [''player_name'', ''team_id'', ''round_num'', ''pick_num'']"
    by (simp add: reads_ok_def pick_obj_def)
  from r [OF h] ok have
    "test_draft_access (Some (league_with_picks seven_picks)) =
       ([nl @ dart @ '' TESTING DRAFT ACCESS'', rule50,
         check_mark @ '' League has draft attribute!'',
         clipboard @ '' Draft object: ''
           @ type_str (draft_obj [(''picks'', Value seven_picks)]),
         dart @ '' Total draft picks found: ''
           @ str_nat (length [pick_obj 1 1, pick_obj 1 2, pick_obj 1 3, pick_obj 1 4,
               pick_obj 2 5, pick_obj 2 6, pick_obj 2 7]),
         nl @ bar_chart @ '' DRAFT PICKS DETECTED:'']
        @ concat (map (\<lambda>(i, p). pick_report i p)
            (enumerate 0 (take 6 [pick_obj 1 1, pick_obj 1 2, pick_obj 1 3, pick_obj 1 4,
               pick_obj 2 5, pick_obj 2 6, pick_obj 2 7]))),
        Inr ())"
    and n: "length (filter is_pick_line (fst (test_draft_access (Some (league_with_picks seven_picks)))))
       = min (length [pick_obj 1 1, pick_obj 1 2, pick_obj 1 3, pick_obj 1 4,
               pick_obj 2 5, pick_obj 2 6, pick_obj 2 7]) 6"
    by blast+
  then show ?thesis
    by (simp add: pick_report_def shown_or_def pick_obj_def int_obj_def draft_obj_def
          class_str_def str_nat.simps)
qed


subsection \<open>The bounds of the roster-access probe\<close>

text \<open>
  Claim C4. Whatever the league handle, however many teams it has and however long the
  rosters are, the roster-access probe prints the fields of at most three teams, and for
  a team at most three players (so at most nine players in all). The teams are the first
  three of the league and the players the first three of the roster: when \<^verbatim>\<open>teams\<close> is a
  sequence, the probe prints their number and then runs the team report over its first
  three elements only; when the roster of a team is a non-empty sequence, the report of the
  team prints the team line, the size of the roster, and then the player line for its first
  three elements only.
\<close>

theorem roster_probe_bounds:
  "length (filter is_team_line (fst (test_teams_and_rosters league))) \<le> 3
   \<and> length (filter is_player_line (fst (team_body team))) \<le> 3
   \<and> length (filter is_player_line (fst (test_teams_and_rosters league))) \<le> 9
   \<and> (truthy lg \<and> getattr3 lg ''teams'' ([] :: pyval list) = Inr (Lib tv) \<and>
        proto tv = Sequence ts \<longrightarrow>
        test_teams_and_rosters (Some lg) =
          ([nl @ people @ '' TESTING TEAMS AND ROSTERS'', rule50,
            bar_chart @ '' Found '' @ str_nat (length ts) @ '' teams'']
           @ fst (for_each (take 3 ts) team_body)
           @ (case snd (for_each (take 3 ts) team_body) of
                Inl e \<Rightarrow> [cross_mark @ '' Teams/roster access failed: '' @ message e]
              | Inr u \<Rightarrow> []),
           Inr ()))
   \<and> (reads_ok team [''team_id'', ''team_name'', ''owner''] \<and>
        hasattr team ''roster'' = Inr True \<and> getattr2 team ''roster'' = Inr roster \<and>
        proto roster = Sequence ps \<and> ps \<noteq> [] \<longrightarrow>
        team_body team =
          ([nl @ football @ '' Team '' @ shown_or team ''team_id'' ''Unknown'' @ '': ''
              @ shown_or team ''team_name'' ''Unknown'' @ '' (Owner: ''
              @ shown_or team ''owner'' ''Unknown'' @ '')'',
            ''  '' @ clipboard @ '' Roster size: '' @ str_nat (length ps)]
           @ fst (for_each (take 3 ps) player_body),
           snd (for_each (take 3 ps) player_body)))"
  using rosters_bounds [of league] team_body_player_lines [of team]
    rosters_with_teams [of lg tv ts] team_with_roster [of team roster ps]
  by blast

theorem roster_probe_bounds_witness:
  "truthy league_of_four
   \<and> test_teams_and_rosters (Some league_of_four) =
     ([nl @ people @ '' TESTING TEAMS AND ROSTERS'', rule50,
       bar_chart @ '' Found 4 teams'',
       nl @ football @ '' Team 1: Aces (Owner: Unknown)'',
       ''  '' @ clipboard @ '' Roster size: 4'',
       ''    - Allen (QB)'', ''    - Barkley (RB)'', ''    - Chase (WR)'',
       nl @ football @ '' Team 2: Blitz (Owner: Unknown)'',
       ''  '' @ clipboard @ '' Roster size: 4'',
       ''    - Allen (QB)'', ''    - Barkley (RB)'', ''    - Chase (WR)'',
       nl @ football @ '' Team 3: Comets (Owner: Unknown)'',
       ''  '' @ clipboard @ '' Roster size: 4'',
       ''    - Allen (QB)'', ''    - Barkley (RB)'', ''    - Chase (WR)''],
      Inr ())
   \<and> team_body (team_obj 4 ''Dukes'' roster_of_four) =
     ([nl @ football @ '' Team 4: Dukes (Owner: Unknown)'',
       ''  '' @ clipboard @ '' Roster size: 4'',
       ''    - Allen (QB)'', ''    - Barkley (RB)'', ''    - Chase (WR)''],
      Inr ())
   \<and> length (filter is_team_line (fst (test_teams_and_rosters (Some league_of_four)))) \<le> 3
   \<and> length (filter is_player_line (fst (team_body (team_obj 4 ''Dukes'' roster_of_four)))) \<le> 3
   \<and> length (filter is_player_line (fst (test_teams_and_rosters (Some league_of_four)))) \<le> 9"
proof -
  let ?players = "[player_obj ''Allen'' ''QB'', player_obj ''Barkley'' ''RB'',
      player_obj ''Chase'' ''WR'', player_obj ''Kelce'' ''TE'']"
  let ?teams = "[team_obj 1 ''Aces'' roster_of_four, team_obj 2 ''Blitz'' roster_of_four,
        team_obj 3 ''Comets'' roster_of_four, team_obj 4 ''Dukes'' roster_of_four]"
  let ?tv = "list_obj ''[Team(Aces), Team(Blitz), Team(Comets), Team(Dukes)]'' ?teams"
  note r = roster_probe_bounds [of "Some league_of_four" "team_obj 4 ''Dukes'' roster_of_four"
      league_of_four ?tv ?teams roster_of_four ?players]
  have h1: "truthy league_of_four \<and>
      getattr3 league_of_four ''teams'' ([] :: pyval list) = Inr (Lib ?tv) \<and>
      proto ?tv = Sequence ?teams"
    by (simp add: league_of_four_def league_obj_def list_obj_def truthy_def getattr3_def)
  have h2: "reads_ok (team_obj 4 ''Dukes'' roster_of_four) [''team_id'', ''team_name'', ''owner''] \<and>
      hasattr (team_obj 4 ''Dukes'' roster_of_four) ''roster'' = Inr True \<and>
      getattr2 (team_obj 4 ''Dukes'' roster_of_four) ''roster'' = Inr roster_of_four \<and>
      proto roster_of_four = Sequence ?players \<and> ?players \<noteq> []"
    by (simp add: team_obj_def roster_of_four_def list_obj_def reads_ok_def hasattr_def
          getattr2_def)
  have players: "for_each (take 3 ?players) player_body =
      ([''    - Allen (QB)'', ''    - Barkley (RB)'', ''    - Chase (WR)''], Inr ())"
    by (simp add: player_body_def player_obj_def str_obj_def getattr3_def py_str_def
          print_def ret_def)
  have teams: "for_each (take 3 ?teams) team_body =
      ([nl @ football @ '' Team 1: Aces (Owner: Unknown)'',
       ''  '' @ clipboard @ '' Roster size: 4'',
       ''    - Allen (QB)'', ''    - Barkley (RB)'', ''    - Chase (WR)'',
       nl @ football @ '' Team 2: Blitz (Owner: Unknown)'',
       ''  '' @ clipboard @ '' Roster size: 4'',
       ''    - Allen (QB)'', ''    - Barkley (RB)'', ''    - Chase (WR)'',
       nl @ football @ '' Team 3: Comets (Owner: Unknown)'',
       ''  '' @ clipboard @ '' Roster size: 4'',
       ''    - Allen (QB)'', ''    - Barkley (RB)'', ''    - Chase (WR)''], Inr ())"
    by (simp add: team_body_def player_body_def roster_of_four_def builtin_defs example_defs
          str_nat.simps print_def ret_def)
  from r h1 have "test_teams_and_rosters (Some league_of_four) =
          ([nl @ people @ '' TESTING TEAMS AND ROSTERS'', rule50,
            bar_chart @ '' Found '' @ str_nat (length ?teams) @ '' teams'']
           @ fst (for_each (take 3 ?teams) team_body)
           @ (case snd (for_each (take 3 ?teams) team_body) of
                Inl e \<Rightarrow> [cross_mark @ '' Teams/roster access failed: '' @ message e]
              | Inr u \<Rightarrow> []),
           Inr ())"
    by blast
  then have a: "test_teams_and_rosters (Some league_of_four) =
     ([nl @ people @ '' TESTING TEAMS AND ROSTERS'', rule50,
       bar_chart @ '' Found 4 teams'',
       nl @ football @ '' Team 1: Aces (Owner: Unknown)'',
       ''  '' @ clipboard @ '' Roster size: 4'',
       ''    - Allen (QB)'', ''    - Barkley (RB)'', ''    - Chase (WR)'',
       nl @ football @ '' Team 2: Blitz (Owner: Unknown)'',
       ''  '' @ clipboard @ '' Roster size: 4'',
       ''    - Allen (QB)'', ''    - Barkley (RB)'', ''    - Chase (WR)'',
       nl @ football @ '' Team 3: Comets (Owner: Unknown)'',
       ''  '' @ clipboard @ '' Roster size: 4'',
       ''    - Allen (QB)'', ''    - Barkley (RB)'', ''    - Chase (WR)''],
      Inr ())"
    by (simp only: teams fst_conv snd_conv sum.case) (simp add: str_nat.simps)
  from r h2 have "team_body (team_obj 4 ''Dukes'' roster_of_four) =
          ([nl @ football @ '' Team ''
              @ shown_or (team_obj 4 ''Dukes'' roster_of_four) ''team_id'' ''Unknown'' @ '': ''
              @ shown_or (team_obj 4 ''Dukes'' roster_of_four) ''team_name'' ''Unknown''
              @ '' (Owner: ''
              @ shown_or (team_obj 4 ''Dukes'' roster_of_four) ''owner'' ''Unknown'' @ '')'',
            ''  '' @ clipboard @ '' Roster size: '' @ str_nat (length ?players)]
           @ fst (for_each (take 3 ?players) player_body),
           snd (for_each (take 3 ?players) player_body))"
    by blast
  then have t: "team_body (team_obj 4 ''Dukes'' roster_of_four) =
     ([nl @ football @ '' Team 4: Dukes (Owner: Unknown)'',
       ''  '' @ clipboard @ '' Roster size: 4'',
       ''    - Allen (QB)'', ''    - Barkley (RB)'', ''    - Chase (WR)''],
      Inr ())"
    by (simp only: players fst_conv snd_conv)
       (simp add: shown_or_def team_obj_def int_obj_def str_obj_def str_nat.simps)
  from r have b: "length (filter is_team_line (fst (test_teams_and_rosters (Some league_of_four)))) \<le> 3"
    and c: "length (filter is_player_line (fst (team_body (team_obj 4 ''Dukes'' roster_of_four)))) \<le> 3"
    and d: "length (filter is_player_line (fst (test_teams_and_rosters (Some league_of_four)))) \<le> 9"
    by blast+
  from h1 have h: "truthy league_of_four" by blast
  from h a t b c d show ?thesis
    by (intro conjI)
qed


subsection \<open>Missing attributes\<close>

text \<open>
  Claim C5 says that whenever an attribute read on a league, a pick, a team or a player is
  absent, the value printed is a placeholder string. For the attribute \<^verbatim>\<open>teams\<close> of the
  league (lines 27 and 91) the default is the empty list, not a string: what is printed
  is its length, \<^verbatim>\<open>Teams: 0\<close> and \<^verbatim>\<open>Found 0 teams\<close>, and \<^verbatim>\<open>0\<close> is none of the
  placeholder strings of the script.
\<close>

theorem missing_teams_prints_count:
  "map_of (attrs bare_league) ''teams'' = None
   \<and> getattr3 bare_league ''teams'' ([] :: pyval list) = Inr (Lit [])
   \<and> test_league_access bare_League =
     ([nl @ magnifier @ '' TESTING LEAGUE ACCESS'', rule50,
       bar_chart @ '' Connecting to League 449753582 (Year 2025)...'',
       check_mark @ '' League connected: Unknown Name'',
       chart_up @ '' Teams: 0'',
       trophy @ '' Current week: Unknown''], Inr (Some bare_league))
   \<and> test_teams_and_rosters (Some bare_league) =
     ([nl @ people @ '' TESTING TEAMS AND ROSTERS'', rule50, bar_chart @ '' Found 0 teams''],
      Inr ())
   \<and> ''0'' \<notin> set placeholders"
  by (simp add: placeholders_def test_league_access_def league_try_body_def test_teams_and_rosters_def
        rosters_try_body_def bare_League_def bare_league_def str_league_id str_year
        league_id_def year_def builtin_defs example_defs str_nat.simps ret_def)

text \<open>
  Claim C5, amended. For every object probed (league, pick, team, player), whenever an
  attribute read with a default is absent, the lookup raises nothing and yields the
  default. For every field read with a string default (the name and the current week of
  the league, the four fields of a pick, the three fields of a team, the two fields of a
  player) the value printed is then the placeholder string, whatever the other attributes
  of the object are: the line with the name of the league is printed with the name or its
  placeholder whatever \<^verbatim>\<open>teams\<close> is, and the whole report of the league whenever
  \<^verbatim>\<open>teams\<close> has a length. For the \<^verbatim>\<open>teams\<close> of the league, whose default is the empty
  list, the value printed is the count 0.
\<close>

theorem missing_attributes_use_defaults:
  "(map_of (attrs v) name = None \<longrightarrow> getattr3 v name dflt = Inr (Lit dflt))
   \<and> py_str (Lit s) = s
   \<and> (map_of (attrs v) name = None \<longrightarrow> shown_or v name s = s)
   \<and> (League 449753582 2025 = Inr lg \<and> reads_ok lg [''name''] \<longrightarrow>
        (\<exists>rest r. test_league_access League =
          ([nl @ magnifier @ '' TESTING LEAGUE ACCESS'', rule50,
            bar_chart @ '' Connecting to League 449753582 (Year 2025)...'',
            check_mark @ '' League connected: '' @ shown_or lg ''name'' ''Unknown Name'']
           @ rest, r)))
   \<and> (League 449753582 2025 = Inr lg \<and> reads_ok lg [''name'', ''current_week''] \<and>
        getattr3 lg ''teams'' ([] :: pyval list) = Inr teams \<and> py_len teams = Inr n \<longrightarrow>
        test_league_access League =
          ([nl @ magnifier @ '' TESTING LEAGUE ACCESS'', rule50,
            bar_chart @ '' Connecting to League 449753582 (Year 2025)...'',
            check_mark @ '' League connected: '' @ shown_or lg ''name'' ''Unknown Name'',
            chart_up @ '' Teams: '' @ str_nat n,
            trophy @ '' Current week: '' @ shown_or lg ''current_week'' ''Unknown''],
           Inr (Some lg)))
   \<and> (map_of (attrs lg) ''teams'' = None \<longrightarrow>
        getattr3 lg ''teams'' ([] :: pyval list) = Inr (Lit []) \<and>
        py_len (Lit ([] :: pyval list)) = Inr 0 \<and> str_nat 0 = ''0'')
   \<and> (truthy lg \<and> map_of (attrs lg) ''teams'' = None \<longrightarrow>
        test_teams_and_rosters (Some lg) =
          ([nl @ people @ '' TESTING TEAMS AND ROSTERS'', rule50,
            bar_chart @ '' Found 0 teams''], Inr ()))
   \<and> (reads_ok pick [''player_name'', ''team_id'', ''round_num'', ''pick_num''] \<longrightarrow>
        pick_body i pick =
          ([''  Pick '' @ str_nat (i + 1) @ '': Round ''
              @ shown_or pick ''round_num'' ''Unknown Round''
              @ '', Pick '' @ shown_or pick ''pick_num'' ''Unknown Pick'',
            ''           Team '' @ shown_or pick ''team_id'' ''Unknown Team'' @ '' ''
              @ right_arrow @ '' '' @ shown_or pick ''player_name'' ''Unknown Player''],
           Inr ()))
   \<and> (reads_ok team [''team_id'', ''team_name'', ''owner''] \<longrightarrow>
        (\<exists>rest r. team_body team =
          ((nl @ football @ '' Team '' @ shown_or team ''team_id'' ''Unknown'' @ '': ''
              @ shown_or team ''team_name'' ''Unknown'' @ '' (Owner: ''
              @ shown_or team ''owner'' ''Unknown'' @ '')'') # rest, r)))
   \<and> (reads_ok player [''name'', ''position''] \<longrightarrow>
        player_body player =
          ([''    - '' @ shown_or player ''name'' ''Unknown Player'' @ '' (''
              @ shown_or player ''position'' ''Unknown Position'' @ '')''], Inr ()))"
proof (intro conjI)
  show "map_of (attrs v) name = None \<longrightarrow> getattr3 v name dflt = Inr (Lit dflt)"
    by (simp add: getattr3_absent)
  show "py_str (Lit s) = s"
    by (simp add: py_str_def)
  show "map_of (attrs v) name = None \<longrightarrow> shown_or v name s = s"
    by (simp add: shown_or_absent)
  show "League 449753582 2025 = Inr lg \<and> reads_ok lg [''name''] \<longrightarrow>
        (\<exists>rest r. test_league_access League =
          ([nl @ magnifier @ '' TESTING LEAGUE ACCESS'', rule50,
            bar_chart @ '' Connecting to League 449753582 (Year 2025)...'',
            check_mark @ '' League connected: '' @ shown_or lg ''name'' ''Unknown Name'']
           @ rest, r))"
    using league_name_line [of League lg] by (intro impI) (elim conjE)
  show "League 449753582 2025 = Inr lg \<and> reads_ok lg [''name'', ''current_week''] \<and>
        getattr3 lg ''teams'' ([] :: pyval list) = Inr teams \<and> py_len teams = Inr n \<longrightarrow>
        test_league_access League =
          ([nl @ magnifier @ '' TESTING LEAGUE ACCESS'', rule50,
            bar_chart @ '' Connecting to League 449753582 (Year 2025)...'',
            check_mark @ '' League connected: '' @ shown_or lg ''name'' ''Unknown Name'',
            chart_up @ '' Teams: '' @ str_nat n,
            trophy @ '' Current week: '' @ shown_or lg ''current_week'' ''Unknown''],
           Inr (Some lg))"
    using league_fields [of League lg teams n] by (intro impI) (elim conjE)
  show "map_of (attrs lg) ''teams'' = None \<longrightarrow>
        getattr3 lg ''teams'' ([] :: pyval list) = Inr (Lit []) \<and>
        py_len (Lit ([] :: pyval list)) = Inr 0 \<and> str_nat 0 = ''0''"
    by (simp add: getattr3_absent py_len_def str_nat.simps)
  show "truthy lg \<and> map_of (attrs lg) ''teams'' = None \<longrightarrow>
        test_teams_and_rosters (Some lg) =
          ([nl @ people @ '' TESTING TEAMS AND ROSTERS'', rule50,
            bar_chart @ '' Found 0 teams''], Inr ())"
    using rosters_without_teams [of lg] by (intro impI) (elim conjE)
  show "reads_ok pick [''player_name'', ''team_id'', ''round_num'', ''pick_num''] \<longrightarrow>
        pick_body i pick =
          ([''  Pick '' @ str_nat (i + 1) @ '': Round ''
              @ shown_or pick ''round_num'' ''Unknown Round''
              @ '', Pick '' @ shown_or pick ''pick_num'' ''Unknown Pick'',
            ''           Team '' @ shown_or pick ''team_id'' ''Unknown Team'' @ '' ''
              @ right_arrow @ '' '' @ shown_or pick ''player_name'' ''Unknown Player''],
           Inr ())"
    using pick_body_reads_ok [of pick i] by (intro impI)
  show "reads_ok team [''team_id'', ''team_name'', ''owner''] \<longrightarrow>
        (\<exists>rest r. team_body team =
          ((nl @ football @ '' Team '' @ shown_or team ''team_id'' ''Unknown'' @ '': ''
              @ shown_or team ''team_name'' ''Unknown'' @ '' (Owner: ''
              @ shown_or team ''owner'' ''Unknown'' @ '')'') # rest, r))"
    using team_line_reads_ok [of team] by (intro impI)
  show "reads_ok player [''name'', ''position''] \<longrightarrow>
        player_body player =
          ([''    - '' @ shown_or player ''name'' ''Unknown Player'' @ '' (''
              @ shown_or player ''position'' ''Unknown Position'' @ '')''], Inr ())"
    using player_body_reads_ok [of player] by (intro impI)
qed

theorem missing_attributes_use_defaults_witness:
  "test_league_access bare_League =
     ([nl @ magnifier @ '' TESTING LEAGUE ACCESS'', rule50,
       bar_chart @ '' Connecting to League 449753582 (Year 2025)...'',
       check_mark @ '' League connected: Unknown Name'',
       chart_up @ '' Teams: 0'',
       trophy @ '' Current week: Unknown''], Inr (Some bare_league))
   \<and> test_league_access (\<lambda>i y. Inr league_of_four) =
     ([nl @ magnifier @ '' TESTING LEAGUE ACCESS'', rule50,
       bar_chart @ '' Connecting to League 449753582 (Year 2025)...'',
       check_mark @ '' League connected: Unknown Name'',
       chart_up @ '' Teams: 4'',
       trophy @ '' Current week: Unknown''], Inr (Some league_of_four))
   \<and> (\<exists>rest r. test_league_access (\<lambda>i y. Inr league_teams_int) =
     ([nl @ magnifier @ '' TESTING LEAGUE ACCESS'', rule50,
       bar_chart @ '' Connecting to League 449753582 (Year 2025)...'',
       check_mark @ '' League connected: Sunday League''] @ rest, r))
   \<and> test_teams_and_rosters (Some bare_league) =
     ([nl @ people @ '' TESTING TEAMS AND ROSTERS'', rule50, bar_chart @ '' Found 0 teams''],
      Inr ())
   \<and> pick_body 0 (bare_obj ''Pick'') =
     ([''  Pick 1: Round Unknown Round, Pick Unknown Pick'',
       ''           Team Unknown Team '' @ right_arrow @ '' Unknown Player''], Inr ())
   \<and> team_body (bare_obj ''Team'') =
     ([nl @ football @ '' Team Unknown: Unknown (Owner: Unknown)'',
       ''  '' @ cross_mark @ '' No roster attribute found''], Inr ())
   \<and> player_body (bare_obj ''Player'') = ([''    - Unknown Player (Unknown Position)''], Inr ())
   \<and> getattr3 (bare_obj ''Player'') ''name'' ''Unknown Player'' = Inr (Lit ''Unknown Player'')"
proof -
  let ?teams = "list_obj ''[Team(Aces), Team(Blitz), Team(Comets), Team(Dukes)]''
       [team_obj 1 ''Aces'' roster_of_four, team_obj 2 ''Blitz'' roster_of_four,
        team_obj 3 ''Comets'' roster_of_four, team_obj 4 ''Dukes'' roster_of_four]"
  note r = missing_attributes_use_defaults [where v = "bare_obj ''Player''" and name = "''name''"
      and dflt = "''Unknown Player''" and s = "''Unknown Player''" and League = bare_League
      and lg = bare_league and teams = "Lit []" and n = 0
      and pick = "bare_obj ''Pick''" and i = 0
      and team = "bare_obj ''Team''" and player = "bare_obj ''Player''"]
  note r4 = missing_attributes_use_defaults [where League = "\<lambda>i y. Inr league_of_four"
      and lg = league_of_four and teams = "Lib ?teams" and n = 4]
  note ri = missing_attributes_use_defaults [where League = "\<lambda>i y. Inr league_teams_int"
      and lg = league_teams_int]
  have h: "map_of (attrs (bare_obj ''Player'')) ''name'' = None"
    "bare_League 449753582 2025 = Inr bare_league"
    "reads_ok bare_league [''name'', ''current_week'']"
    "getattr3 bare_league ''teams'' ([] :: pyval list) = Inr (Lit [])"
    "py_len (Lit ([] :: pyval list)) = Inr 0"
    "map_of (attrs bare_league) ''teams'' = None"
    "truthy bare_league"
    "reads_ok (bare_obj ''Pick'') [''player_name'', ''team_id'', ''round_num'', ''pick_num'']"
    "reads_ok (bare_obj ''Team'') [''team_id'', ''team_name'', ''owner'']"
    "reads_ok (bare_obj ''Player'') [''name'', ''position'']"
    by (simp_all add: bare_obj_def bare_League_def bare_league_def league_obj_def reads_ok_def
          truthy_def getattr3_def py_len_def)
  have h4: "(\<lambda>i y. Inr league_of_four) (449753582 :: int) (2025 :: int)
        = (Inr league_of_four :: pyexn + pyval)"
    "reads_ok league_of_four [''name'', ''current_week'']"
    "getattr3 league_of_four ''teams'' ([] :: pyval list) = Inr (Lib ?teams)"
    "py_len (Lib ?teams) = Inr 4"
    by (simp_all add: league_of_four_def league_obj_def list_obj_def reads_ok_def getattr3_def
          py_len_def len_obj_def)
  have hi: "(\<lambda>i y. Inr league_teams_int) (449753582 :: int) (2025 :: int)
        = (Inr league_teams_int :: pyexn + pyval)"
    "reads_ok league_teams_int [''name'']"
    by (simp_all add: league_teams_int_def league_obj_def reads_ok_def)
  have t: "team_body (bare_obj ''Team'') =
     ([nl @ football @ '' Team Unknown: Unknown (Owner: Unknown)'',
       ''  '' @ cross_mark @ '' No roster attribute found''], Inr ())"
    by (simp add: team_body_def bare_obj_def builtin_defs print_def)
  from r h have a1: "test_league_access bare_League =
          ([nl @ magnifier @ '' TESTING LEAGUE ACCESS'', rule50,
            bar_chart @ '' Connecting to League 449753582 (Year 2025)...'',
            check_mark @ '' League connected: '' @ shown_or bare_league ''name'' ''Unknown Name'',
            chart_up @ '' Teams: '' @ str_nat 0,
            trophy @ '' Current week: '' @ shown_or bare_league ''current_week'' ''Unknown''],
           Inr (Some bare_league))"
    and a2: "test_teams_and_rosters (Some bare_league) =
          ([nl @ people @ '' TESTING TEAMS AND ROSTERS'', rule50,
            bar_chart @ '' Found 0 teams''], Inr ())"
    and a3: "pick_body 0 (bare_obj ''Pick'') =
          ([''  Pick '' @ str_nat (0 + 1) @ '': Round ''
              @ shown_or (bare_obj ''Pick'') ''round_num'' ''Unknown Round''
              @ '', Pick '' @ shown_or (bare_obj ''Pick'') ''pick_num'' ''Unknown Pick'',
            ''           Team '' @ shown_or (bare_obj ''Pick'') ''team_id'' ''Unknown Team'' @ '' ''
              @ right_arrow @ '' '' @ shown_or (bare_obj ''Pick'') ''player_name'' ''Unknown Player''],
           Inr ())"
    and a4: "player_body (bare_obj ''Player'') =
          ([''    - '' @ shown_or (bare_obj ''Player'') ''name'' ''Unknown Player'' @ '' (''
              @ shown_or (bare_obj ''Player'') ''position'' ''Unknown Position'' @ '')''], Inr ())"
    and a5: "getattr3 (bare_obj ''Player'') ''name'' ''Unknown Player'' = Inr (Lit ''Unknown Player'')"
    by blast+
  from r4 [THEN conjunct2, THEN conjunct2, THEN conjunct2, THEN conjunct2, THEN conjunct1] h4
  have b: "test_league_access (\<lambda>i y. Inr league_of_four) =
          ([nl @ magnifier @ '' TESTING LEAGUE ACCESS'', rule50,
            bar_chart @ '' Connecting to League 449753582 (Year 2025)...'',
            check_mark @ '' League connected: '' @ shown_or league_of_four ''name'' ''Unknown Name'',
            chart_up @ '' Teams: '' @ str_nat 4,
            trophy @ '' Current week: '' @ shown_or league_of_four ''current_week'' ''Unknown''],
           Inr (Some league_of_four))"
    by blast
  from ri [THEN conjunct2, THEN conjunct2, THEN conjunct2, THEN conjunct1] hi
  have c: "\<exists>rest r. test_league_access (\<lambda>i y. Inr league_teams_int) =
          ([nl @ magnifier @ '' TESTING LEAGUE ACCESS'', rule50,
            bar_chart @ '' Connecting to League 449753582 (Year 2025)...'',
            check_mark @ '' League connected: ''
              @ shown_or league_teams_int ''name'' ''Unknown Name''] @ rest, r)"
    by blast
  have s1: "shown_or bare_league ''name'' ''Unknown Name'' = ''Unknown Name''"
    "shown_or bare_league ''current_week'' ''Unknown'' = ''Unknown''"
    "shown_or league_of_four ''name'' ''Unknown Name'' = ''Unknown Name''"
    "shown_or league_of_four ''current_week'' ''Unknown'' = ''Unknown''"
    "shown_or league_teams_int ''name'' ''Unknown Name'' = ''Sunday League''"
    "str_nat 0 = ''0''" "str_nat 4 = ''4''"
    by (simp_all add: shown_or_def bare_league_def league_of_four_def league_teams_int_def
          league_obj_def str_obj_def str_nat.simps)
  have a1': "test_league_access bare_League =
     ([nl @ magnifier @ '' TESTING LEAGUE ACCESS'', rule50,
       bar_chart @ '' Connecting to League 449753582 (Year 2025)...'',
       check_mark @ '' League connected: Unknown Name'',
       chart_up @ '' Teams: 0'',
       trophy @ '' Current week: Unknown''], Inr (Some bare_league))"
    using a1 by (simp only: s1) simp
  have b': "test_league_access (\<lambda>i y. Inr league_of_four) =
     ([nl @ magnifier @ '' TESTING LEAGUE ACCESS'', rule50,
       bar_chart @ '' Connecting to League 449753582 (Year 2025)...'',
       check_mark @ '' League connected: Unknown Name'',
       chart_up @ '' Teams: 4'',
       trophy @ '' Current week: Unknown''], Inr (Some league_of_four))"
    using b by (simp only: s1) simp
  have c': "\<exists>rest r. test_league_access (\<lambda>i y. Inr league_teams_int) =
     ([nl @ magnifier @ '' TESTING LEAGUE ACCESS'', rule50,
       bar_chart @ '' Connecting to League 449753582 (Year 2025)...'',
       check_mark @ '' League connected: Sunday League''] @ rest, r)"
    using c by (simp only: s1) simp
  have a3': "pick_body 0 (bare_obj ''Pick'') =
     ([''  Pick 1: Round Unknown Round, Pick Unknown Pick'',
       ''           Team Unknown Team '' @ right_arrow @ '' Unknown Player''], Inr ())"
    using a3 by (simp add: shown_or_def bare_obj_def str_nat.simps)
  have a4': "player_body (bare_obj ''Player'') =
     ([''    - Unknown Player (Unknown Position)''], Inr ())"
    using a4 by (simp add: shown_or_def bare_obj_def)
  from a1' b' c' a2 a3' t a4' a5 show ?thesis
    by (intro conjI)
qed


end
